theory Spec2Isabelle
  imports Complex_Main
begin

section \<open>JavaScript values used by the chart scripts\<close>

text \<open>
  The scripts are JavaScript. Two kinds of primitive value meet in one comparison of
  the rate chart: the keys of a \<^verbatim>\<open>for (const i in data)\<close> loop, which
  are strings, and \<^verbatim>\<open>data.length-1\<close>, which is a number. Strict equality
  \<^verbatim>\<open>===\<close> never converts: values of different types are unequal.
\<close>

datatype jsval = JNumber int | JString string

fun strict_equals :: "jsval \<Rightarrow> jsval \<Rightarrow> bool" where
  "strict_equals (JNumber a) (JNumber b) = (a = b)"
| "strict_equals (JString a) (JString b) = (a = b)"
| "strict_equals _ _ = False"

text \<open>The decimal numeral of an array index, as the property key of that element.\<close>

definition digit_char :: "nat \<Rightarrow> char" where
  "digit_char d = ''0123456789'' ! d"

fun decimal :: "nat \<Rightarrow> string" where
  "decimal n =
     (if n < 10 then [digit_char n] else decimal (n div 10) @ [digit_char (n mod 10)])"

declare decimal.simps [simp del]

text \<open>
  \<^verbatim>\<open>for (const i in data)\<close> over an array visits its index keys in ascending
  order, each as a string; \<^verbatim>\<open>data[i]\<close> then reads the element at that
  index. The loop is modelled over the keys paired with their elements; the array is
  taken to have no enumerable property besides its elements. (The rows that the CSV
  loader of the charting library delivers also carry the property
  \<^verbatim>\<open>columns\<close>, which such a loop visits last.)
\<close>

definition for_in :: "'a list \<Rightarrow> (jsval \<times> 'a) list" where
  "for_in data = zip (map (\<lambda>k. JString (decimal k)) [0..<length data]) data"

text \<open>
  A variable that holds either \<^verbatim>\<open>undefined\<close> or an object is an option.
  Used as a condition, \<^verbatim>\<open>undefined\<close> is falsy and every object (a
  \<^verbatim>\<open>Date\<close> included, whatever its time value) is truthy.
\<close>

fun truthy :: "'a option \<Rightarrow> bool" where
  "truthy None = False"
| "truthy (Some v) = True"

section \<open>Rate chart: collapsing recession periods\<close>

text \<open>
  A row of the rate data as \<^verbatim>\<open>getData\<close> builds it. A date is the time
  value of its \<^verbatim>\<open>Date\<close> object (milliseconds since the epoch).
\<close>

record rate_sample =
  date :: int
  rate :: real
  isRecession :: bool

record recession_period =
  startDate :: int
  endDate :: int

text \<open>The two variables the loop of \<^verbatim>\<open>collapseRecessionPeriods\<close> updates.\<close>

record collapse_state =
  periods :: "recession_period list"
  startDate_var :: "int option"

text \<open>
  One pass through the loop body, for key \<open>i\<close> and \<open>datum = data[i]\<close>:
  \<^verbatim>\<open>
  if (startDate === undefined && datum.isRecession) {
      startDate = datum.date;
  }
  else if (startDate && (!datum.isRecession || i === data.length-1)) {
      periods.push({ startDate: startDate, endDate: datum.date });
      startDate = undefined;
  }
  \<close>
\<close>

definition loop_body ::
  "rate_sample list \<Rightarrow> jsval \<Rightarrow> rate_sample \<Rightarrow> collapse_state \<Rightarrow> collapse_state" where
  "loop_body data i datum st =
     (if startDate_var st = None \<and> isRecession datum then
        st\<lparr>startDate_var := Some (date datum)\<rparr>
      else if truthy (startDate_var st) \<and>
              (\<not> isRecession datum \<or> strict_equals i (JNumber (int (length data) - 1))) then
        (case startDate_var st of
           Some s \<Rightarrow>
             st\<lparr>periods := periods st @ [\<lparr>startDate = s, endDate = date datum\<rparr>],
                startDate_var := None\<rparr>
         | None \<Rightarrow> st)
      else st)"

fun collapse_loop ::
  "rate_sample list \<Rightarrow> (jsval \<times> rate_sample) list \<Rightarrow> collapse_state \<Rightarrow> collapse_state" where
  "collapse_loop data [] st = st"
| "collapse_loop data ((i, datum) # rest) st = collapse_loop data rest (loop_body data i datum st)"

definition collapseRecessionPeriods :: "rate_sample list \<Rightarrow> recession_period list" where
  "collapseRecessionPeriods data =
     periods (collapse_loop data (for_in data) \<lparr>periods = [], startDate_var = None\<rparr>)"

text \<open>A sample with the given date and flag; the rate plays no part in the collapsing.\<close>

definition sample :: "int \<Rightarrow> bool \<Rightarrow> rate_sample" where
  "sample d f = \<lparr>date = d, rate = 0, isRecession = f\<rparr>"

section \<open>Numbers, plot areas and scales\<close>

text \<open>
  A JavaScript number is modelled as a real. The arithmetic of the scales, the arcs and
  the drawing functions is read exactly, without the rounding of binary floating point;
  the legend area of the rate chart, whose monotonicity depends on the rounding, is
  computed with it.
\<close>

text \<open>
  The \<^verbatim>\<open>plot\<close> object of a chart: the size of the SVG, the padding of the
  main chart area, and the drawn axis lengths \<^verbatim>\<open>plot.range.x\<close> and
  \<^verbatim>\<open>plot.range.y\<close>. The nested objects are flattened into one record.
\<close>

record plot_area =
  svg_width :: real
  svg_height :: real
  padding_top :: real
  padding_right :: real
  padding_bottom :: real
  padding_left :: real
  range_x :: real
  range_y :: real

text \<open>
  Each \<^verbatim>\<open>getPlotArea\<close> first builds the object without its range and then
  assigns \<^verbatim>\<open>plot.range\<close> from the fields already there.
\<close>

definition set_range :: "plot_area \<Rightarrow> plot_area" where
  "set_range plot =
     plot\<lparr>range_x := svg_width plot - padding_left plot - padding_right plot,
          range_y := svg_height plot - padding_top plot - padding_bottom plot\<rparr>"

definition getPlotArea_map :: plot_area where
  "getPlotArea_map =
     set_range \<lparr>svg_width = 800, svg_height = 500,
                padding_top = 60, padding_right = 5, padding_bottom = 5, padding_left = 5,
                range_x = 0, range_y = 0\<rparr>"

definition getPlotArea_rate :: plot_area where
  "getPlotArea_rate =
     set_range \<lparr>svg_width = 800, svg_height = 420,
                padding_top = 10, padding_right = 90, padding_bottom = 40, padding_left = 20,
                range_x = 0, range_y = 0\<rparr>"

definition getPlotArea_bar :: plot_area where
  "getPlotArea_bar =
     set_range \<lparr>svg_width = 800, svg_height = 500,
                padding_top = 70, padding_right = 30, padding_bottom = 70, padding_left = 70,
                range_x = 0, range_y = 0\<rparr>"

text \<open>
  Modelled from the spec: the linear scale, which the scripts obtain from the charting
  library (\<^verbatim>\<open>d3.scaleLinear().domain([..]).range([..])\<close>); the library is not
  among the sources. The spec gives
  \<^verbatim>\<open>pixel = range.min + (value - domain.min) / (domain.max - domain.min) * (range.max - range.min)\<close>,
  where min and max are the first and the second entry of the pair, so that a range may
  be inverted.
\<close>

definition scaleLinear :: "real \<times> real \<Rightarrow> real \<times> real \<Rightarrow> real \<Rightarrow> real" where
  "scaleLinear domain rng v =
     fst rng + (v - fst domain) / (snd domain - fst domain) * (snd rng - fst rng)"

text \<open>The scales of the map overlay: circle radius, longitude and latitude.\<close>

record map_scales =
  scale_r :: "real \<Rightarrow> real"
  scale_x :: "real \<Rightarrow> real"
  scale_y :: "real \<Rightarrow> real"

definition makeScales_map :: "plot_area \<Rightarrow> map_scales" where
  "makeScales_map plot =
     \<lparr>scale_r = scaleLinear (100000, 1000000) (1, 10),
      scale_x = scaleLinear (-124.711776, -67.0999376) (0, range_x plot),
      scale_y = scaleLinear (24.5646815, 49.3782021) (range_y plot, 0)\<rparr>"

section \<open>Map overlay: route arcs\<close>

record airport =
  code :: string
  latitude :: real
  longitude :: real
  movements2015 :: real

text \<open>
  A route is one \<^verbatim>\<open>path\<close> element. Its \<^verbatim>\<open>d\<close> attribute is the
  concatenation
  \<^verbatim>\<open>'M ' + curX + ',' + curY + ' A ' + rx + ' ' + ry + ' ' + xAxisRotation + ' ' + largeArcFlag + ' ' + sweepFlag + ' ' + newX + ' ' + newY\<close>;
  the record keeps the numbers that are concatenated, in that order, and the class the
  path is given.
\<close>

record route_path =
  move_x :: real
  move_y :: real
  arc_rx :: real
  arc_ry :: real
  arc_xAxisRotation :: int
  arc_largeArcFlag :: int
  arc_sweepFlag :: int
  arc_x :: real
  arc_y :: real
  path_class :: string

text \<open>
  \<^verbatim>\<open>appendOneRouteArc\<close> appends one path to the routes group, which is
  modelled as the list of the paths appended so far.
\<close>

definition appendOneRouteArc ::
  "route_path list \<Rightarrow> airport \<Rightarrow> airport \<Rightarrow> map_scales \<Rightarrow> route_path list" where
  "appendOneRouteArc routesGroup departureAirport arrivalAirport scales =
     (let xAxisRotation = 0;
          largeArcFlag = 0;
          curX = scale_x scales (longitude departureAirport);
          curY = scale_y scales (latitude departureAirport);
          newX = scale_x scales (longitude arrivalAirport);
          newY = scale_y scales (latitude arrivalAirport);
          rx = (newX - curX) * 1.5;
          ry = rx;
          sweepFlag = 1
      in routesGroup @
         [\<lparr>move_x = curX, move_y = curY, arc_rx = rx, arc_ry = ry,
           arc_xAxisRotation = xAxisRotation, arc_largeArcFlag = largeArcFlag,
           arc_sweepFlag = sweepFlag, arc_x = newX, arc_y = newY,
           path_class = (if curX < newX then ''eastward'' else ''westward'')\<rparr>])"

text \<open>The path that \<^verbatim>\<open>appendOneRouteArc\<close> appends.\<close>

definition route_arc :: "map_scales \<Rightarrow> airport \<Rightarrow> airport \<Rightarrow> route_path" where
  "route_arc scales departureAirport arrivalAirport =
     last (appendOneRouteArc [] departureAirport arrivalAirport scales)"

text \<open>
  The inner loop of \<^verbatim>\<open>appendRouteArcs\<close>, run for the airport \<open>d\<close> at
  index \<open>i\<close>:
  \<^verbatim>\<open>for (let j = 0; j < data.length; ++j) { if (j != i) { appendOneRouteArc(routesGroup, d, data[j], scales); } }\<close>
\<close>

function route_loop ::
  "airport list \<Rightarrow> map_scales \<Rightarrow> airport \<Rightarrow> nat \<Rightarrow> nat \<Rightarrow> route_path list \<Rightarrow> route_path list" where
  "route_loop data scales d i j routesGroup =
     (if j < length data then
        route_loop data scales d i (j + 1)
          (if j \<noteq> i then appendOneRouteArc routesGroup d (data ! j) scales else routesGroup)
      else routesGroup)"
  by pat_completeness auto
termination
  by (relation "measure (\<lambda>(data, scales, d, i, j, routesGroup). length data - j)") auto

declare route_loop.simps [simp del]

text \<open>
  \<^verbatim>\<open>selectAll().data(data).enter().each(f)\<close> on a fresh group: the charting
  library calls \<open>f(d, i)\<close> once for every element \<open>d\<close> of the data, with its index
  \<open>i\<close>, in the order of the array.
\<close>

fun each_from :: "nat \<Rightarrow> ('a \<Rightarrow> nat \<Rightarrow> 's \<Rightarrow> 's) \<Rightarrow> 'a list \<Rightarrow> 's \<Rightarrow> 's" where
  "each_from i f [] st = st"
| "each_from i f (d # ds) st = each_from (Suc i) f ds (f d i st)"

definition each :: "('a \<Rightarrow> nat \<Rightarrow> 's \<Rightarrow> 's) \<Rightarrow> 'a list \<Rightarrow> 's \<Rightarrow> 's" where
  "each f data st = each_from 0 f data st"

definition appendRouteArcs :: "airport list \<Rightarrow> map_scales \<Rightarrow> route_path list" where
  "appendRouteArcs data scales =
     each (\<lambda>d i routesGroup. route_loop data scales d i 0 routesGroup) data []"

section \<open>Binary floating point\<close>

text \<open>
  A JavaScript number is a binary64 value, and every arithmetic operation gives the
  exact result rounded to the nearest such value, a tie going to the value with the
  even significand. Where a property depends on the rounding, the operations are
  modelled with it: a finite number is the real it stands for, and \<open>fl\<close> rounds a
  real to 53 significant bits, with the least exponent -1022 (below it the spacing
  stays that of the subnormal numbers). Results beyond the largest number
  \<open>max_double\<close>, which JavaScript turns into \<^verbatim>\<open>Infinity\<close>, are not modelled.
\<close>

text \<open>The binary exponent of a positive number: the \<open>e\<close> with \<open>2^e \<le> x < 2^(e+1)\<close>.\<close>

function expo :: "real \<Rightarrow> int" where
  "expo x =
     (if x \<le> 0 then 0
      else if 2 \<le> x then expo (x / 2) + 1
      else if x < 1 then expo (x * 2) - 1
      else 0)"
  by pat_completeness auto
termination
proof (relation "measure (\<lambda>x. nat (2 * \<lceil>1 / x\<rceil> + \<lfloor>x\<rfloor>))")
  show "wf (measure (\<lambda>x. nat (2 * \<lceil>1 / x\<rceil> + \<lfloor>x\<rfloor>)))"
    by simp
next
  fix x :: real
  assume "\<not> x \<le> 0" and x2: "2 \<le> x"
  have c1: "\<lceil>1 / (x / 2)\<rceil> = 1"
    using x2 by (intro ceiling_unique) auto
  have c2: "\<lceil>1 / x\<rceil> = 1"
    using x2 by (intro ceiling_unique) (auto simp: field_simps)
  have "\<lfloor>x / 2\<rfloor> < \<lfloor>x\<rfloor>"
  proof -
    have "x / 2 \<le> x - 1" using x2 by simp
    then have "\<lfloor>x / 2\<rfloor> \<le> \<lfloor>x - 1\<rfloor>" by (rule floor_mono)
    then show ?thesis by simp
  qed
  moreover have "0 \<le> \<lfloor>x / 2\<rfloor>" using x2 by simp
  ultimately have "nat (2 * 1 + \<lfloor>x / 2\<rfloor>) < nat (2 * 1 + \<lfloor>x\<rfloor>)"
    by linarith
  then show "(x / 2, x) \<in> measure (\<lambda>x. nat (2 * \<lceil>1 / x\<rceil> + \<lfloor>x\<rfloor>))"
    unfolding in_measure c1 c2 .
next
  fix x :: real
  assume pos: "\<not> x \<le> 0" and "\<not> 2 \<le> x" and x1: "x < 1"
  have f0: "\<lfloor>x\<rfloor> = 0" using pos x1 by (intro floor_unique) auto
  have y: "1 < 1 / x" using pos x1 by (simp add: field_simps)
  have cy: "2 \<le> \<lceil>1 / x\<rceil>"
  proof -
    have "1 < \<lceil>1 / x\<rceil>"
      using y by (simp only: less_ceiling_iff of_int_1)
    then show ?thesis by linarith
  qed
  show "(x * 2, x) \<in> measure (\<lambda>x. nat (2 * \<lceil>1 / x\<rceil> + \<lfloor>x\<rfloor>))"
  proof (cases "x < 1 / 2")
    case True
    then have f2: "\<lfloor>x * 2\<rfloor> = 0" using pos by (intro floor_unique) auto
    have "1 / (x * 2) \<le> of_int \<lceil>1 / x\<rceil> / 2"
      using pos le_of_int_ceiling [of "1 / x"] by (simp add: field_simps)
    also have "\<dots> \<le> of_int (\<lceil>1 / x\<rceil> - 1)"
      using cy by simp
    finally have "\<lceil>1 / (x * 2)\<rceil> \<le> \<lceil>1 / x\<rceil> - 1"
      by (rule ceiling_le)
    then have "nat (2 * \<lceil>1 / (x * 2)\<rceil> + 0) < nat (2 * \<lceil>1 / x\<rceil> + 0)"
      using cy by linarith
    then show ?thesis
      unfolding in_measure f0 f2 .
  next
    case False
    then have f2: "\<lfloor>x * 2\<rfloor> = 1" using x1 by (intro floor_unique) auto
    have c2: "\<lceil>1 / (x * 2)\<rceil> = 1"
      using False pos by (intro ceiling_unique) (auto simp: field_simps)
    have "nat (2 * 1 + 1) < nat (2 * \<lceil>1 / x\<rceil> + 0)"
      using cy by linarith
    then show ?thesis
      unfolding in_measure f0 f2 c2 .
  qed
qed

declare expo.simps [simp del]

text \<open>
  Rounding to the nearest integer, a tie to the even one; the exponent of the binade of
  a number, the spacing of the numbers in that binade, and the rounding to that spacing.
\<close>

definition round_half_even :: "real \<Rightarrow> int" where
  "round_half_even r =
     (let f = \<lfloor>r\<rfloor>; d = r - of_int f
      in if d < 1 / 2 then f else if 1 / 2 < d then f + 1 else if even f then f else f + 1)"

definition binade :: "real \<Rightarrow> int" where
  "binade x = max (expo \<bar>x\<bar>) (- 1022)"

definition quantum :: "real \<Rightarrow> real" where
  "quantum x = 2 powi (binade x - 52)"

definition fl :: "real \<Rightarrow> real" where
  "fl x = of_int (round_half_even (x / quantum x)) * quantum x"

text \<open>The operators \<^verbatim>\<open>+\<close>, \<^verbatim>\<open>-\<close> and \<^verbatim>\<open>*\<close> on numbers.\<close>

definition js_add :: "real \<Rightarrow> real \<Rightarrow> real" where
  "js_add x y = fl (x + y)"

definition js_sub :: "real \<Rightarrow> real \<Rightarrow> real" where
  "js_sub x y = fl (x - y)"

definition js_mul :: "real \<Rightarrow> real \<Rightarrow> real" where
  "js_mul x y = fl (x * y)"


section \<open>Rate chart: legend area\<close>

text \<open>
  The \<^verbatim>\<open>area\<close> object of \<^verbatim>\<open>calcLegendArea\<close>, flattened. The object
  is first built from constants; \<^verbatim>\<open>plate.width\<close>, \<^verbatim>\<open>plate.height\<close>
  and \<^verbatim>\<open>square.x\<close> are then assigned in this order, each from the fields
  already there. The sums and products are those of JavaScript, evaluated from the left
  and rounded at every operation:
  \<^verbatim>\<open>area.plate.margin + maxTextWidth + 2 * area.square.margin + area.square.width\<close>,
  \<^verbatim>\<open>(numRows + 1) * area.square.margin + numRows * area.square.width\<close> and
  \<^verbatim>\<open>area.plate.width - area.square.width - area.square.margin\<close>.
\<close>

record legend_area =
  legend_margin :: real
  plate_margin :: real
  plate_width :: real
  plate_height :: real
  square_margin :: real
  square_width :: real
  square_x :: real
  text_fontOffset :: real

definition calcLegendArea :: "real \<Rightarrow> real \<Rightarrow> legend_area" where
  "calcLegendArea maxTextWidth numRows =
     (let area0 = \<lparr>legend_margin = 10, plate_margin = 10, plate_width = 0, plate_height = 0,
                    square_margin = 5, square_width = 10, square_x = 0, text_fontOffset = 9\<rparr>;
          area1 = area0\<lparr>plate_width :=
                    js_add (js_add (js_add (plate_margin area0) maxTextWidth)
                                   (js_mul 2 (square_margin area0)))
                           (square_width area0)\<rparr>;
          area2 = area1\<lparr>plate_height :=
                    js_add (js_mul (js_add numRows 1) (square_margin area1))
                           (js_mul numRows (square_width area1))\<rparr>;
          area3 = area2\<lparr>square_x :=
                    js_sub (js_sub (plate_width area2) (square_width area2)) (square_margin area2)\<rparr>
      in area3)"

section \<open>Rate chart: the translation of an axis tick\<close>

text \<open>
  \<^verbatim>\<open>extractTranslation\<close> matches the \<^verbatim>\<open>transform\<close> attribute
  against the regular expression \<^verbatim>\<open>/^translate\((.*),(.*)\)$/\<close>. The pattern
  is a sequence of literal characters and of capture groups \<^verbatim>\<open>(.*)\<close>,
  anchored at both ends. A dot matches every character but a line terminator (of the
  8-bit characters: line feed and carriage return).
\<close>

datatype rx_item = Lit char | AnyStarGroup

definition line_terminator :: "char \<Rightarrow> bool" where
  "line_terminator c = (c = CHR 0x0A \<or> c = CHR 0x0D)"

fun first_some :: "'a option list \<Rightarrow> 'a option" where
  "first_some [] = None"
| "first_some (None # rest) = first_some rest"
| "first_some (Some v # rest) = Some v"

text \<open>
  Backtracking match of an anchored pattern against the whole string; the result lists
  the captured groups. A group \<^verbatim>\<open>(.*)\<close> is greedy: it first takes as many
  characters as a dot can match, and gives them back one at a time until the rest of the
  pattern matches.
\<close>

fun rx_match :: "rx_item list \<Rightarrow> string \<Rightarrow> string list option" where
  "rx_match [] s = (if s = [] then Some [] else None)"
| "rx_match (Lit c # p) [] = None"
| "rx_match (Lit c # p) (x # xs) = (if x = c then rx_match p xs else None)"
| "rx_match (AnyStarGroup # p) s =
     first_some
       (map (\<lambda>k. map_option (\<lambda>groups. take k s # groups) (rx_match p (drop k s)))
            (rev [0..<Suc (length (takeWhile (\<lambda>c. \<not> line_terminator c) s))]))"

declare rx_match.simps(4) [simp del]

definition translate_pattern :: "rx_item list" where
  "translate_pattern =
     map Lit ''translate('' @ [AnyStarGroup, Lit (CHR '','')] @ [AnyStarGroup, Lit (CHR '')'')]"

text \<open>
  \<^verbatim>\<open>transform.match(re)\<close> is \<^verbatim>\<open>null\<close> when the pattern does not
  match, and otherwise the array of the whole match followed by the groups.
\<close>

definition string_match :: "rx_item list \<Rightarrow> string \<Rightarrow> string list option" where
  "string_match p s = map_option (\<lambda>groups. s # groups) (rx_match p s)"

datatype js_error = TypeError | Error string | RequestError

record 'n translation =
  trans_x :: 'n
  trans_y :: 'n

text \<open>
  The message of the error that \<^verbatim>\<open>extractTranslation\<close> throws:
  \<^verbatim>\<open>"Don't know how to parse transform: '" + transform + "'"\<close>.
\<close>

definition parse_error_message :: "string \<Rightarrow> string" where
  "parse_error_message transform =
     ''Don't know how to parse transform: '' @ [CHR 0x27] @ transform @ [CHR 0x27]"

text \<open>
  The selection is modelled by its attributes: \<^verbatim>\<open>selection.attr(name)\<close> is
  the value of the attribute, or \<^verbatim>\<open>null\<close> when the element has none, and
  calling \<^verbatim>\<open>match\<close> on \<^verbatim>\<open>null\<close> is a TypeError. The conversion
  \<^verbatim>\<open>+m[1]\<close> of a string to a number belongs to the language and is the
  parameter \<open>to_number\<close>.
\<close>

definition extractTranslation ::
  "(string \<Rightarrow> 'n) \<Rightarrow> (string \<rightharpoonup> string) \<Rightarrow> js_error + 'n translation" where
  "extractTranslation to_number selection =
     (case selection ''transform'' of
        None \<Rightarrow> Inl TypeError
      | Some transform \<Rightarrow>
          (case string_match translate_pattern transform of
             None \<Rightarrow> Inl (Error (parse_error_message transform))
           | Some m \<Rightarrow>
               if length m < 3 then Inl (Error (parse_error_message transform))
               else Inr \<lparr>trans_x = to_number (m ! 1), trans_y = to_number (m ! 2)\<rparr>))"

text \<open>
  What it means for a string to match the pattern, stated on the string itself: it is
  \<^verbatim>\<open>translate(\<close>, some \<open>a\<close>, a comma, some \<open>b\<close> and \<^verbatim>\<open>)\<close>, where
  \<open>a\<close> and \<open>b\<close> hold no line terminator.
\<close>

definition dot_string :: "string \<Rightarrow> bool" where
  "dot_string s = (\<not> (\<exists>c \<in> set s. line_terminator c))"

definition matches_translate :: "string \<Rightarrow> bool" where
  "matches_translate s =
     (\<exists>a b. s = ''translate('' @ a @ '','' @ b @ '')'' \<and> dot_string a \<and> dot_string b)"

section \<open>Drawing: the render state\<close>

text \<open>
  A render works on two things that can change: the \<^verbatim>\<open>plot\<close> object, which
  \<^verbatim>\<open>draw\<close> hands by reference to the functions it calls, and the document, to
  which the charting library appends. The document is modelled by the drawing
  instructions issued so far; a node is named by a number, node 0 being the body.
\<close>

datatype part = S string | N real | ToNumber string | NaN | Undefined

record linear_scale =
  lin_domain :: "real \<times> real"
  lin_range :: "real \<times> real"

record time_scale =
  time_domain :: "int \<times> int"
  time_range :: "real \<times> real"

record band_scale =
  band_domain :: "string list"
  band_range :: "real \<times> real"

datatype axis_scale = LinearAxis linear_scale | TimeAxis time_scale | BandAxis band_scale

record axis =
  orient :: string
  axis_scale_of :: axis_scale
  tickValues :: "real list option"
  tickFormat :: "string option"
  tickSize :: "real option"

datatype instr =
    Append nat nat string
  | Attr nat string "part list"
  | Text nat "part list"
  | Classed nat string
  | LinePath nat "(real \<times> real) list"
  | CallAxis nat axis
  | ImportNode nat
  | AppendChild nat nat

record render_state =
  plot_obj :: plot_area
  next_node :: nat
  emitted :: "instr list"

definition emit :: "instr list \<Rightarrow> render_state \<Rightarrow> render_state" where
  "emit is st = st\<lparr>emitted := emitted st @ is\<rparr>"

definition append_node :: "nat \<Rightarrow> string \<Rightarrow> render_state \<Rightarrow> nat \<times> render_state" where
  "append_node parent tag st =
     (next_node st,
      st\<lparr>next_node := Suc (next_node st),
         emitted := emitted st @ [Append (next_node st) parent tag]\<rparr>)"


text \<open>
  \<^verbatim>\<open>selectAll().data(data).enter().append(tag)\<close> appends one node for every
  element of the data; an attribute given by a function is then set on each of these
  nodes from its own element.
\<close>

fun enter_append :: "nat \<Rightarrow> string \<Rightarrow> 'a list \<Rightarrow> render_state \<Rightarrow> nat list \<times> render_state" where
  "enter_append parent tag [] st = ([], st)"
| "enter_append parent tag (d # ds) st =
     (let (n, st1) = append_node parent tag st;
          (ns, st2) = enter_append parent tag ds st1
      in (n # ns, st2))"

definition each_attr :: "nat list \<Rightarrow> 'a list \<Rightarrow> string \<Rightarrow> ('a \<Rightarrow> part list) \<Rightarrow> instr list" where
  "each_attr nodes data attr_name f = map (\<lambda>(n, d). Attr n attr_name (f d)) (zip nodes data)"

definition each_text :: "nat list \<Rightarrow> 'a list \<Rightarrow> ('a \<Rightarrow> part list) \<Rightarrow> instr list" where
  "each_text nodes data f = map (\<lambda>(n, d). Text n (f d)) (zip nodes data)"

text \<open>A render is a sequence of steps; an exception that a step throws ends it.\<close>

fun run_steps ::
  "(render_state \<Rightarrow> js_error + render_state) list \<Rightarrow> render_state \<Rightarrow> js_error + render_state" where
  "run_steps [] st = Inr st"
| "run_steps (step # steps) st =
     (case step st of Inl e \<Rightarrow> Inl e | Inr st' \<Rightarrow> run_steps steps st')"

text \<open>The states a render passes through: before the first step and after every step.\<close>

fun trace_steps ::
  "(render_state \<Rightarrow> js_error + render_state) list \<Rightarrow> render_state \<Rightarrow> render_state list" where
  "trace_steps [] st = [st]"
| "trace_steps (step # steps) st =
     st # (case step st of Inl e \<Rightarrow> [] | Inr st' \<Rightarrow> trace_steps steps st')"

section \<open>Shared chart utilities\<close>

text \<open>\<^verbatim>\<open>chartUtils.setupSvgAndPaddingGroup(svg, plot)\<close>.\<close>

definition setupSvgAndPaddingGroup :: "nat \<Rightarrow> render_state \<Rightarrow> nat \<times> render_state" where
  "setupSvgAndPaddingGroup svg st =
     (let plot = plot_obj st;
          st1 = emit [Attr svg ''width'' [N (svg_width plot), S ''px''],
                      Attr svg ''height'' [N (svg_height plot), S ''px'']] st;
          (paddingGroup, st2) = append_node svg ''g'' st1;
          st3 = emit [Attr paddingGroup ''transform''
                        [S ''translate('', N (padding_left plot), S '','',
                         N (padding_top plot), S '')'']] st2
      in (paddingGroup, st3))"

text \<open>
  \<^verbatim>\<open>chartUtils.calcTextWidth(group, textString, textClass)\<close> draws a hidden text
  and returns its computed length, which the document measures: the parameter
  \<open>measure_text\<close>.
\<close>

definition calcTextWidth ::
  "(string \<Rightarrow> string \<Rightarrow> real) \<Rightarrow> nat \<Rightarrow> string \<Rightarrow> string \<Rightarrow> render_state \<Rightarrow> real \<times> render_state" where
  "calcTextWidth measure_text parentGroup textString textClass st =
     (let (textElement, st1) = append_node parentGroup ''text'' st;
          st2 = emit [Attr textElement ''class'' [S textClass],
                      Attr textElement ''x'' [N (-99999)],
                      Text textElement [S textString]] st1
      in (measure_text textString textClass, st2))"

section \<open>Bar chart\<close>

record fruit =
  name :: string
  scoreToday :: real
  scoreLastYear :: real

definition getData_bar :: "fruit list" where
  "getData_bar =
     [\<lparr>name = ''Apple'', scoreToday = 62, scoreLastYear = 25\<rparr>,
      \<lparr>name = ''Banana'', scoreToday = 90, scoreLastYear = 71\<rparr>,
      \<lparr>name = ''Peach'', scoreToday = 43, scoreLastYear = 59\<rparr>,
      \<lparr>name = ''Orange'', scoreToday = 65, scoreLastYear = 43\<rparr>,
      \<lparr>name = ''Lime'', scoreToday = 88, scoreLastYear = 63\<rparr>]"

definition linear_at :: "linear_scale \<Rightarrow> real \<Rightarrow> real" where
  "linear_at s v = scaleLinear (lin_domain s) (lin_range s) v"

text \<open>
  Modelled from the spec: the band scale of the charting library
  (\<^verbatim>\<open>d3.scaleBand\<close>), which is not among the sources. The domain is an ordered
  set of keys; the range is divided into as many equal buckets as there are keys; the
  scale gives the position of a key and the bandwidth. A key outside the domain has no
  position.
\<close>

definition bandwidth :: "band_scale \<Rightarrow> real" where
  "bandwidth b = (snd (band_range b) - fst (band_range b)) / real (length (band_domain b))"

fun index_of :: "'a \<Rightarrow> 'a list \<Rightarrow> nat option" where
  "index_of k [] = None"
| "index_of k (x # xs) = (if x = k then Some 0 else map_option Suc (index_of k xs))"

definition band_position :: "band_scale \<Rightarrow> string \<Rightarrow> real option" where
  "band_position b k =
     map_option (\<lambda>i. fst (band_range b) + real i * bandwidth b) (index_of k (band_domain b))"

definition ordered_set :: "'a list \<Rightarrow> 'a list" where
  "ordered_set ks = rev (remdups (rev ks))"

text \<open>A position as an attribute value, and a position plus an offset.\<close>

definition position_part :: "real option \<Rightarrow> part" where
  "position_part p = (case p of Some v \<Rightarrow> N v | None \<Rightarrow> Undefined)"

definition position_plus :: "real option \<Rightarrow> real \<Rightarrow> part" where
  "position_plus p off = (case p of Some v \<Rightarrow> N (v + off) | None \<Rightarrow> NaN)"

record bar_scales =
  bar_x :: band_scale
  bar_y :: linear_scale

definition makeScales_bar :: "fruit list \<Rightarrow> plot_area \<Rightarrow> bar_scales" where
  "makeScales_bar data plot =
     \<lparr>bar_x = \<lparr>band_domain = ordered_set (map name data), band_range = (0, range_x plot)\<rparr>,
      bar_y = \<lparr>lin_domain = (0, 100), lin_range = (range_y plot, 0)\<rparr>\<rparr>"

definition appendXAxis_bar :: "nat \<Rightarrow> bar_scales \<Rightarrow> render_state \<Rightarrow> render_state" where
  "appendXAxis_bar paddingGroup scales st =
     (let plot = plot_obj st;
          xAxis = \<lparr>orient = ''bottom'', axis_scale_of = BandAxis (bar_x scales),
                   tickValues = None, tickFormat = None, tickSize = None\<rparr>;
          (g, st1) = append_node paddingGroup ''g'' st
      in emit [Attr g ''transform'' [S ''translate(0,'', N (range_y plot), S '')''],
               Attr g ''class'' [S ''xAxis''],
               CallAxis g xAxis] st1)"

definition appendYAxis_bar :: "nat \<Rightarrow> bar_scales \<Rightarrow> render_state \<Rightarrow> render_state" where
  "appendYAxis_bar paddingGroup scales st =
     (let yAxis = \<lparr>orient = ''left'', axis_scale_of = LinearAxis (bar_y scales),
                   tickValues = None, tickFormat = None, tickSize = None\<rparr>;
          (g, st1) = append_node paddingGroup ''g'' st
      in emit [Attr g ''class'' [S ''yAxis''], CallAxis g yAxis] st1)"

definition appendYAxisDashedLines :: "nat \<Rightarrow> bar_scales \<Rightarrow> render_state \<Rightarrow> render_state" where
  "appendYAxisDashedLines paddingGroup scales st =
     (let plot = plot_obj st;
          yAxis = \<lparr>orient = ''left'', axis_scale_of = LinearAxis (bar_y scales),
                   tickValues = None, tickFormat = None, tickSize = Some (range_x plot)\<rparr>;
          (g, st1) = append_node paddingGroup ''g'' st
      in emit [Attr g ''class'' [S ''yDashed''],
               Attr g ''transform'' [S ''translate('', N (range_x plot), S '',0)''],
               CallAxis g yAxis] st1)"

definition defineDashedLine :: "nat \<Rightarrow> render_state \<Rightarrow> render_state" where
  "defineDashedLine svg st =
     (let (defs, st1) = append_node svg ''defs'' st;
          (pattern, st2) = append_node defs ''pattern'' st1;
          st3 = emit [Attr pattern ''id'' [S ''dashed-line''],
                      Attr pattern ''patternUnits'' [S ''userSpaceOnUse''],
                      Attr pattern ''width'' [N 4],
                      Attr pattern ''height'' [N 4]] st2;
          (rect1, st4) = append_node pattern ''rect'' st3;
          st5 = emit [Attr rect1 ''width'' [N 4], Attr rect1 ''height'' [N 4],
                      Attr rect1 ''fill'' [S ''white'']] st4;
          (rect2, st6) = append_node pattern ''rect'' st5
      in emit [Attr rect2 ''width'' [N 2], Attr rect2 ''height'' [N 4],
               Attr rect2 ''fill'' [S ''lightgrey'']] st6)"

definition appendBars :: "nat \<Rightarrow> fruit list \<Rightarrow> bar_scales \<Rightarrow> render_state \<Rightarrow> render_state" where
  "appendBars paddingGroup data scales st =
     (let plot = plot_obj st;
          rectWidth = bandwidth (bar_x scales) * 0.2;
          (g, st1) = append_node paddingGroup ''g'' st;
          st2 = emit [Attr g ''class'' [S ''bars''],
                      Attr g ''transform''
                        [S ''translate('', N (bandwidth (bar_x scales) / 2 - rectWidth / 2),
                         S '',0)'']] st1;
          (rects, st3) = enter_append g ''rect'' data st2
      in emit (each_attr rects data ''x'' (\<lambda>d. [position_part (band_position (bar_x scales) (name d))]) @
               each_attr rects data ''y'' (\<lambda>d. [N (linear_at (bar_y scales) (scoreToday d))]) @
               each_attr rects data ''width'' (\<lambda>d. [N rectWidth]) @
               each_attr rects data ''height''
                 (\<lambda>d. [N (range_y plot - linear_at (bar_y scales) (scoreToday d))]) @
               each_attr rects data ''class'' (\<lambda>d. [S (name d)])) st3)"

definition appendScoreToday :: "nat \<Rightarrow> fruit list \<Rightarrow> bar_scales \<Rightarrow> render_state \<Rightarrow> render_state" where
  "appendScoreToday paddingGroup data scales st =
     (let (g, st1) = append_node paddingGroup ''g'' st;
          st2 = emit [Attr g ''class'' [S ''scoreToday''],
                      Attr g ''transform''
                        [S ''translate('', N (bandwidth (bar_x scales) / 2), S '',0)'']] st1;
          (texts, st3) = enter_append g ''text'' data st2
      in emit (each_attr texts data ''x'' (\<lambda>d. [position_part (band_position (bar_x scales) (name d))]) @
               each_attr texts data ''y'' (\<lambda>d. [N (linear_at (bar_y scales) (scoreToday d) - 5)]) @
               each_text texts data (\<lambda>d. [N (scoreToday d)])) st3)"

definition appendScoreLastYear :: "nat \<Rightarrow> fruit list \<Rightarrow> bar_scales \<Rightarrow> render_state \<Rightarrow> render_state" where
  "appendScoreLastYear paddingGroup data scales st =
     (let rectWidth = bandwidth (bar_x scales) * 0.2;
          (g, st1) = append_node paddingGroup ''g'' st;
          st2 = emit [Attr g ''class'' [S ''scoreLastYear''],
                      Attr g ''transform''
                        [S ''translate('', N (bandwidth (bar_x scales) / 2 + rectWidth / 2),
                         S '',0)'']] st1;
          (lines, st3) = enter_append g ''line'' data st2;
          st4 = emit (each_attr lines data ''x1'' (\<lambda>d. [position_part (band_position (bar_x scales) (name d))]) @
                      each_attr lines data ''y1'' (\<lambda>d. [N (linear_at (bar_y scales) (scoreLastYear d))]) @
                      each_attr lines data ''x2'' (\<lambda>d. [position_plus (band_position (bar_x scales) (name d)) 6]) @
                      each_attr lines data ''y2'' (\<lambda>d. [N (linear_at (bar_y scales) (scoreLastYear d))])) st3;
          (texts, st5) = enter_append g ''text'' data st4
      in emit (each_attr texts data ''x'' (\<lambda>d. [position_plus (band_position (bar_x scales) (name d)) 8]) @
               each_attr texts data ''y'' (\<lambda>d. [N (linear_at (bar_y scales) (scoreLastYear d) + 4)]) @
               each_text texts data (\<lambda>d. [N (scoreLastYear d)])) st5)"

definition appendChartTitle_bar :: "nat \<Rightarrow> render_state \<Rightarrow> render_state" where
  "appendChartTitle_bar svg st =
     (let plot = plot_obj st;
          (t, st1) = append_node svg ''text'' st
      in emit [Attr t ''id'' [S ''chartTitle''],
               Attr t ''x'' [N (svg_width plot / 2)],
               Attr t ''y'' [N (padding_top plot * 0.66)],
               Text t [S ''Carbo-Hydroxyl-Frutinoid Concentrations'']] st1)"

definition appendYAxisTitle :: "nat \<Rightarrow> render_state \<Rightarrow> render_state" where
  "appendYAxisTitle svg st =
     (let plot = plot_obj st;
          (t, st1) = append_node svg ''text'' st
      in emit [Attr t ''id'' [S ''yTitle''],
               Attr t ''transform''
                 [S ''translate('', N (padding_left plot / 3), S '','',
                  N (padding_top plot + range_y plot / 2), S '') rotate(-90)''],
               Text t [S ''Concentration %'']] st1)"

definition appendFootnote :: "nat \<Rightarrow> render_state \<Rightarrow> render_state" where
  "appendFootnote svg st =
     (let plot = plot_obj st;
          (t, st1) = append_node svg ''text'' st
      in emit [Attr t ''id'' [S ''footnote''],
               Attr t ''x'' [N (svg_width plot / 2)],
               Attr t ''y'' [N (svg_height plot - padding_bottom plot / 4)],
               Text t [S ''Bold score represents today's value.  Italic score represents last year's value.'']] st1)"

text \<open>
  \<^verbatim>\<open>draw\<close> of the bar chart. The state starts with the plot that
  \<^verbatim>\<open>getPlotArea\<close> returns and an empty document; the steps are the calls of
  \<^verbatim>\<open>draw\<close> after the scales are made, in their order.
\<close>

definition start_render :: "plot_area \<Rightarrow> render_state" where
  "start_render plot = \<lparr>plot_obj = plot, next_node = 1, emitted = []\<rparr>"

definition draw_bar_steps ::
  "nat \<Rightarrow> nat \<Rightarrow> fruit list \<Rightarrow> bar_scales \<Rightarrow> (render_state \<Rightarrow> js_error + render_state) list" where
  "draw_bar_steps svg paddingGroup data scales =
     [\<lambda>st. Inr (defineDashedLine svg st),
      \<lambda>st. Inr (appendYAxisDashedLines paddingGroup scales st),
      \<lambda>st. Inr (appendXAxis_bar paddingGroup scales st),
      \<lambda>st. Inr (appendYAxis_bar paddingGroup scales st),
      \<lambda>st. Inr (appendBars paddingGroup data scales st),
      \<lambda>st. Inr (appendScoreToday paddingGroup data scales st),
      \<lambda>st. Inr (appendScoreLastYear paddingGroup data scales st),
      \<lambda>st. Inr (appendChartTitle_bar svg st),
      \<lambda>st. Inr (appendYAxisTitle svg st),
      \<lambda>st. Inr (appendFootnote svg st)]"

definition draw_bar_setup ::
  "(render_state \<Rightarrow> js_error + render_state) list \<times> render_state list \<times> render_state" where
  "draw_bar_setup =
     (let data = getData_bar;
          st0 = start_render getPlotArea_bar;
          (svg, st1) = append_node 0 ''svg'' st0;
          (paddingGroup, st2) = setupSvgAndPaddingGroup svg st1;
          scales = makeScales_bar data (plot_obj st2)
      in (draw_bar_steps svg paddingGroup data scales, [st0, st1], st2))"

definition draw_bar :: "js_error + render_state" where
  "draw_bar = (case draw_bar_setup of (steps, before, st) \<Rightarrow> run_steps steps st)"

definition draw_bar_trace :: "render_state list" where
  "draw_bar_trace = (case draw_bar_setup of (steps, before, st) \<Rightarrow> before @ trace_steps steps st)"

section \<open>Rate chart\<close>

text \<open>
  What the rate chart asks of its collaborators: the computed length of a text (by
  string and class), the date a number of days after a date (the date library's
  \<^verbatim>\<open>add\<close> and \<^verbatim>\<open>subtract\<close>), and the tick elements that the axis
  generator has put under the axis group of a given class, each with its attributes.
\<close>

record collaborators =
  text_width :: "string \<Rightarrow> string \<Rightarrow> real"
  moment_add_days :: "int \<Rightarrow> int \<Rightarrow> int"
  axis_ticks :: "string \<Rightarrow> (string \<rightharpoonup> string) list"

definition rateHeadroom :: real where
  "rateHeadroom = 0.005"

definition dateMinHeadroomDays :: int where
  "dateMinHeadroomDays = 14"

definition dateMaxHeadroomDays :: int where
  "dateMaxHeadroomDays = 7"

text \<open>
  Modelled from the spec: the time scale of the charting library
  (\<^verbatim>\<open>d3.scaleTime\<close>), which is not among the sources. The spec gives it the
  formula of the linear scale; it is applied to the time values of the dates.
\<close>

definition time_at :: "time_scale \<Rightarrow> int \<Rightarrow> real" where
  "time_at s t =
     scaleLinear (real_of_int (fst (time_domain s)), real_of_int (snd (time_domain s)))
       (time_range s) (real_of_int t)"

record rate_scales =
  rate_x :: time_scale
  rate_y :: linear_scale

text \<open>
  \<^verbatim>\<open>makeScales(data, plot)\<close> of the rate chart reads \<^verbatim>\<open>data[0].date\<close>,
  which is a TypeError on empty data.
\<close>

definition makeScales_rate ::
  "collaborators \<Rightarrow> rate_sample list \<Rightarrow> plot_area \<Rightarrow> js_error + rate_scales" where
  "makeScales_rate c data plot =
     (case data of
        [] \<Rightarrow> Inl TypeError
      | first # others \<Rightarrow>
          (let minDate = moment_add_days c (date first) (- dateMinHeadroomDays);
               maxDate = moment_add_days c (date (last data)) dateMaxHeadroomDays;
               minRate = real_of_int \<lfloor>100.0 * fold min (map rate others) (rate first)\<rfloor> / 100.0
                           - rateHeadroom;
               maxRate = real_of_int \<lceil>100.0 * fold max (map rate others) (rate first)\<rceil> / 100.0
                           + rateHeadroom
           in Inr \<lparr>rate_x = \<lparr>time_domain = (minDate, maxDate), time_range = (0, range_x plot)\<rparr>,
                   rate_y = \<lparr>lin_domain = (minRate, maxRate), lin_range = (range_y plot, 0)\<rparr>\<rparr>))"

definition appendXAxis_rate :: "nat \<Rightarrow> rate_scales \<Rightarrow> render_state \<Rightarrow> render_state" where
  "appendXAxis_rate paddingGroup scales st =
     (let plot = plot_obj st;
          xAxis = \<lparr>orient = ''bottom'', axis_scale_of = TimeAxis (rate_x scales),
                   tickValues = None, tickFormat = None, tickSize = None\<rparr>;
          (g, st1) = append_node paddingGroup ''g'' st
      in emit [Attr g ''transform'' [S ''translate(0,'', N (range_y plot), S '')''],
               Attr g ''class'' [S ''xAxis''],
               CallAxis g xAxis] st1)"

definition appendYAxis_rate :: "nat \<Rightarrow> rate_scales \<Rightarrow> render_state \<Rightarrow> render_state" where
  "appendYAxis_rate paddingGroup scales st =
     (let plot = plot_obj st;
          numTicks = 7;
          tickStep = (snd (lin_domain (rate_y scales)) - fst (lin_domain (rate_y scales))
                        - 2 * rateHeadroom) / (real numTicks - 1);
          firstValue = fst (lin_domain (rate_y scales)) + rateHeadroom;
          ticks = map (\<lambda>i. tickStep * real i + firstValue) [0..<numTicks];
          yAxis = \<lparr>orient = ''right'', axis_scale_of = LinearAxis (rate_y scales),
                   tickValues = Some ticks, tickFormat = Some ''.2%'', tickSize = None\<rparr>;
          (g, st1) = append_node paddingGroup ''g'' st
      in emit [Attr g ''transform'' [S ''translate('', N (range_x plot), S '',0)''],
               Attr g ''class'' [S ''yAxis''],
               CallAxis g yAxis] st1)"

definition appendBackground :: "nat \<Rightarrow> render_state \<Rightarrow> render_state" where
  "appendBackground paddingGroup st =
     (let plot = plot_obj st;
          (r, st1) = append_node paddingGroup ''rect'' st
      in emit [Attr r ''width'' [N (range_x plot)],
               Attr r ''height'' [N (range_y plot)],
               Attr r ''class'' [S ''background'']] st1)"

definition appendBackgroundBorderLines :: "nat \<Rightarrow> render_state \<Rightarrow> render_state" where
  "appendBackgroundBorderLines paddingGroup st =
     (let plot = plot_obj st;
          offset = 0.5;
          (p, st1) = append_node paddingGroup ''path'' st
      in emit [Attr p ''d''
                 [S ''M '', N (svg_width plot - padding_left plot), S '','', N offset, S '' '',
                  S ''L '', N offset, S '','', N offset, S '' '',
                  N offset, S '','', N (range_y plot + offset), S '' '',
                  N (svg_width plot - padding_left plot), S '','', N (range_y plot + offset)],
               Attr p ''class'' [S ''background-border'']] st1)"

text \<open>One grid line appended to the grid group; the four attributes in the order given.\<close>

definition append_line :: "nat \<Rightarrow> part \<Rightarrow> part \<Rightarrow> part \<Rightarrow> part \<Rightarrow> render_state \<Rightarrow> render_state" where
  "append_line gridGroup x1 y1 x2 y2 st =
     (let (l, st1) = append_node gridGroup ''line'' st
      in emit [Attr l ''x1'' [x1], Attr l ''y1'' [y1], Attr l ''x2'' [x2], Attr l ''y2'' [y2]] st1)"

text \<open>
  The body of \<^verbatim>\<open>appendBackgroundHorizontalGridLines\<close> runs for every tick of
  the Y axis; \<^verbatim>\<open>extractTranslation\<close> may throw, which ends the render.
\<close>

fun horizontal_lines ::
  "nat \<Rightarrow> (string \<rightharpoonup> string) list \<Rightarrow> render_state \<Rightarrow> js_error + render_state" where
  "horizontal_lines gridGroup [] st = Inr st"
| "horizontal_lines gridGroup (tick # ticks) st =
     (case extractTranslation ToNumber tick of
        Inl e \<Rightarrow> Inl e
      | Inr t \<Rightarrow>
          horizontal_lines gridGroup ticks
            (append_line gridGroup (N 0) (trans_y t) (N (range_x (plot_obj st))) (trans_y t) st))"

definition appendBackgroundHorizontalGridLines ::
  "collaborators \<Rightarrow> nat \<Rightarrow> render_state \<Rightarrow> js_error + render_state" where
  "appendBackgroundHorizontalGridLines c paddingGroup st =
     (let (gridGroup, st1) = append_node paddingGroup ''g'' st;
          st2 = emit [Attr gridGroup ''class'' [S ''grid'']] st1
      in horizontal_lines gridGroup (axis_ticks c ''yAxis'') st2)"

text \<open>
  \<^verbatim>\<open>paddingGroup.selectAll('.grid')\<close>: the nodes that were given the class; a
  line is appended to each of them. The first tick of the X axis is skipped.
\<close>

definition select_class :: "string \<Rightarrow> instr list \<Rightarrow> nat list" where
  "select_class cls instrs =
     concat (map (\<lambda>i. case i of Attr n k v \<Rightarrow> (if k = ''class'' \<and> v = [S cls] then [n] else [])
                             | _ \<Rightarrow> []) instrs)"

fun append_line_each :: "nat list \<Rightarrow> part \<Rightarrow> part \<Rightarrow> part \<Rightarrow> part \<Rightarrow> render_state \<Rightarrow> render_state" where
  "append_line_each [] x1 y1 x2 y2 st = st"
| "append_line_each (g # gs) x1 y1 x2 y2 st =
     append_line_each gs x1 y1 x2 y2 (append_line g x1 y1 x2 y2 st)"

fun vertical_lines ::
  "nat list \<Rightarrow> nat \<Rightarrow> (string \<rightharpoonup> string) list \<Rightarrow> render_state \<Rightarrow> js_error + render_state" where
  "vertical_lines gridGroup i [] st = Inr st"
| "vertical_lines gridGroup i (tick # ticks) st =
     (if i > 0 then
        (case extractTranslation ToNumber tick of
           Inl e \<Rightarrow> Inl e
         | Inr t \<Rightarrow>
             vertical_lines gridGroup (Suc i) ticks
               (append_line_each gridGroup (trans_x t) (N 0) (trans_x t)
                  (N (range_y (plot_obj st))) st))
      else vertical_lines gridGroup (Suc i) ticks st)"

definition appendBackgroundVerticalGridLines ::
  "collaborators \<Rightarrow> nat \<Rightarrow> render_state \<Rightarrow> js_error + render_state" where
  "appendBackgroundVerticalGridLines c paddingGroup st =
     (let gridGroup = select_class ''grid'' (emitted st)
      in vertical_lines gridGroup 0 (axis_ticks c ''xAxis'') st)"

definition appendRateWaveform :: "nat \<Rightarrow> rate_sample list \<Rightarrow> rate_scales \<Rightarrow> render_state \<Rightarrow> render_state" where
  "appendRateWaveform paddingGroup data scales st =
     (let (g, st1) = append_node paddingGroup ''g'' st;
          st2 = emit [Attr g ''class'' [S ''waveform'']] st1;
          (p, st3) = append_node g ''path'' st2
      in emit [LinePath p (map (\<lambda>d. (time_at (rate_x scales) (date d),
                                      linear_at (rate_y scales) (rate d))) data)] st3)"

definition appendRecessionBars ::
  "nat \<Rightarrow> rate_sample list \<Rightarrow> rate_scales \<Rightarrow> render_state \<Rightarrow> render_state" where
  "appendRecessionBars paddingGroup data scales st =
     (let plot = plot_obj st;
          recessionPeriods = collapseRecessionPeriods data;
          (rects, st1) = enter_append paddingGroup ''rect'' recessionPeriods st
      in emit (each_attr rects recessionPeriods ''class'' (\<lambda>d. [S ''recession'']) @
               each_attr rects recessionPeriods ''x'' (\<lambda>d. [N (time_at (rate_x scales) (startDate d))]) @
               each_attr rects recessionPeriods ''y'' (\<lambda>d. [N 0]) @
               each_attr rects recessionPeriods ''width''
                 (\<lambda>d. [N (time_at (rate_x scales) (endDate d) - time_at (rate_x scales) (startDate d))]) @
               each_attr rects recessionPeriods ''height'' (\<lambda>d. [N (range_y plot)])) st1)"

definition appendLegendOneRow_rate ::
  "nat \<Rightarrow> legend_area \<Rightarrow> real \<Rightarrow> string \<Rightarrow> string \<Rightarrow> render_state \<Rightarrow> render_state" where
  "appendLegendOneRow_rate legendGroup area rowNum squareClass textString st =
     (let (r, st1) = append_node legendGroup ''rect'' st;
          st2 = emit [Attr r ''class'' [S squareClass],
                      Attr r ''x'' [N (square_x area)],
                      Attr r ''y'' [N ((rowNum + 1) * square_margin area + rowNum * square_width area)],
                      Attr r ''width'' [N (square_width area)],
                      Attr r ''height'' [N (square_width area)]] st1;
          (t, st3) = append_node legendGroup ''text'' st2
      in emit [Attr t ''x'' [N (square_x area - square_margin area)],
               Attr t ''y'' [N ((rowNum + 1) * square_margin area + text_fontOffset area
                                + rowNum * square_width area)],
               Text t [S textString]] st3)"

definition appendLegend_rate :: "collaborators \<Rightarrow> nat \<Rightarrow> render_state \<Rightarrow> render_state" where
  "appendLegend_rate c paddingGroup st =
     (let plot = plot_obj st;
          (legendGroup, st1) = append_node paddingGroup ''g'' st;
          st2 = emit [Attr legendGroup ''class'' [S ''legend'']] st1;
          waveformTextString = ''10 Year Treasury Rate'';
          (waveformTextWidth, st3) = calcTextWidth (text_width c) legendGroup waveformTextString [] st2;
          area = calcLegendArea waveformTextWidth 2;
          st4 = emit [Attr legendGroup ''transform''
                        [S ''translate('', N (range_x plot - plate_width area - plate_margin area),
                         S '','', N (plate_margin area), S '')'']] st3;
          (plate, st5) = append_node legendGroup ''rect'' st4;
          st6 = emit [Attr plate ''class'' [S ''legend-plate''],
                      Attr plate ''width'' [N (plate_width area)],
                      Attr plate ''height'' [N (plate_height area)]] st5;
          st7 = appendLegendOneRow_rate legendGroup area 0 ''legend-waveform'' waveformTextString st6
      in appendLegendOneRow_rate legendGroup area 1 ''legend-recession'' ''Recession'' st7)"

definition draw_rate_steps ::
  "collaborators \<Rightarrow> nat \<Rightarrow> rate_sample list \<Rightarrow> rate_scales \<Rightarrow>
   (render_state \<Rightarrow> js_error + render_state) list" where
  "draw_rate_steps c paddingGroup data scales =
     [\<lambda>st. Inr (appendBackground paddingGroup st),
      \<lambda>st. Inr (appendXAxis_rate paddingGroup scales st),
      \<lambda>st. Inr (appendYAxis_rate paddingGroup scales st),
      appendBackgroundHorizontalGridLines c paddingGroup,
      appendBackgroundVerticalGridLines c paddingGroup,
      \<lambda>st. Inr (appendRecessionBars paddingGroup data scales st),
      \<lambda>st. Inr (appendBackgroundBorderLines paddingGroup st),
      \<lambda>st. Inr (appendRateWaveform paddingGroup data scales st),
      \<lambda>st. Inr (appendLegend_rate c paddingGroup st)]"

text \<open>
  \<^verbatim>\<open>draw\<close> of the rate chart, called back with the data. When
  \<^verbatim>\<open>makeScales\<close> throws, no step runs.
\<close>

definition draw_rate_setup ::
  "collaborators \<Rightarrow> rate_sample list \<Rightarrow>
   (render_state \<Rightarrow> js_error + render_state) list \<times> render_state list \<times> render_state" where
  "draw_rate_setup c data =
     (let st0 = start_render getPlotArea_rate;
          (svg, st1) = append_node 0 ''svg'' st0;
          (paddingGroup, st2) = setupSvgAndPaddingGroup svg st1
      in (case makeScales_rate c data (plot_obj st2) of
            Inl e \<Rightarrow> ([\<lambda>st. Inl e], [st0, st1], st2)
          | Inr scales \<Rightarrow> (draw_rate_steps c paddingGroup data scales, [st0, st1], st2)))"

definition draw_rate :: "collaborators \<Rightarrow> rate_sample list \<Rightarrow> js_error + render_state" where
  "draw_rate c data = (case draw_rate_setup c data of (steps, before, st) \<Rightarrow> run_steps steps st)"

definition draw_rate_trace :: "collaborators \<Rightarrow> rate_sample list \<Rightarrow> render_state list" where
  "draw_rate_trace c data =
     (case draw_rate_setup c data of (steps, before, st) \<Rightarrow> before @ trace_steps steps st)"

section \<open>Map overlay\<close>

text \<open>
  The base map as the request for it answers: whether the request failed, and the
  \<^verbatim>\<open>width\<close> and \<^verbatim>\<open>height\<close> attributes of the image.
\<close>

record map_asset =
  request_failed :: bool
  origWidth :: string
  origHeight :: string

text \<open>
  \<^verbatim>\<open>appendMap\<close>: a failed request is thrown again; otherwise the image is
  imported, resized to the plot range and appended to the padding group.
\<close>

definition appendMap :: "map_asset \<Rightarrow> nat \<Rightarrow> render_state \<Rightarrow> js_error + render_state" where
  "appendMap asset paddingGroup st =
     (if request_failed asset then Inl RequestError
      else
        (let plot = plot_obj st;
             svgElement = next_node st;
             st1 = st\<lparr>next_node := Suc (next_node st),
                      emitted := emitted st @ [ImportNode svgElement]\<rparr>
         in Inr (emit [Attr svgElement ''width'' [N (range_x plot)],
                       Attr svgElement ''height'' [N (range_y plot)],
                       Attr svgElement ''viewBox''
                         [S ''0 0 '', S (origWidth asset), S '' '', S (origHeight asset)],
                       Attr svgElement ''preserveAspectRatio'' [S ''none''],
                       AppendChild paddingGroup svgElement] st1)))"

text \<open>The \<^verbatim>\<open>d\<close> attribute of a route, as \<^verbatim>\<open>appendOneRouteArc\<close> concatenates it.\<close>

definition route_d :: "route_path \<Rightarrow> part list" where
  "route_d p =
     [S ''M '', N (move_x p), S '','', N (move_y p), S '' '',
      S ''A '', N (arc_rx p), S '' '', N (arc_ry p), S '' '',
      N (real_of_int (arc_xAxisRotation p)), S '' '',
      N (real_of_int (arc_largeArcFlag p)), S '' '',
      N (real_of_int (arc_sweepFlag p)), S '' '',
      N (arc_x p), S '' '', N (arc_y p)]"

fun append_paths :: "nat \<Rightarrow> route_path list \<Rightarrow> render_state \<Rightarrow> render_state" where
  "append_paths routesGroup [] st = st"
| "append_paths routesGroup (p # ps) st =
     (let (n, st1) = append_node routesGroup ''path'' st
      in append_paths routesGroup ps
           (emit [Attr n ''d'' (route_d p), Classed n (path_class p)] st1))"

text \<open>
  \<^verbatim>\<open>appendRouteArcs\<close> on the document: the routes group is appended, and the
  paths of all routes are appended to it in the order in which they are made.
\<close>

definition appendRouteArcs_render ::
  "nat \<Rightarrow> airport list \<Rightarrow> map_scales \<Rightarrow> render_state \<Rightarrow> render_state" where
  "appendRouteArcs_render paddingGroup data scales st =
     (let (routesGroup, st1) = append_node paddingGroup ''g'' st;
          st2 = emit [Attr routesGroup ''class'' [S ''routes'']] st1
      in append_paths routesGroup (appendRouteArcs data scales) st2)"

definition appendOneAirportCircle ::
  "collaborators \<Rightarrow> nat \<Rightarrow> airport \<Rightarrow> map_scales \<Rightarrow> render_state \<Rightarrow> render_state" where
  "appendOneAirportCircle c paddingGroup airport scales st =
     (let fontOffset = 16;
          plateMargin = 3;
          platePadding = 1;
          cx = scale_x scales (longitude airport);
          cy = scale_y scales (latitude airport);
          (airportGroup, st1) = append_node paddingGroup ''g'' st;
          st2 = emit [Attr airportGroup ''class'' [S ''airport''],
                      Attr airportGroup ''transform''
                        [S ''translate('', N cx, S '','', N cy, S '')'']] st1;
          r = scale_r scales (movements2015 airport);
          (circle, st3) = append_node airportGroup ''circle'' st2;
          st4 = emit [Attr circle ''r'' [N r]] st3;
          (textWidth, st5) = calcTextWidth (text_width c) paddingGroup (code airport) ''airport-hidden'' st4;
          (plate, st6) = append_node airportGroup ''rect'' st5;
          st7 = emit [Attr plate ''class'' [S ''plate''],
                      Attr plate ''x'' [N (- (textWidth / 2 + platePadding))],
                      Attr plate ''y'' [N (r + plateMargin)],
                      Attr plate ''width'' [N (textWidth + 2 * platePadding)],
                      Attr plate ''height'' [N (fontOffset + platePadding)]] st6;
          (t, st8) = append_node airportGroup ''text'' st7
      in emit [Attr t ''y'' [N (r + fontOffset)], Text t [S (code airport)]] st8)"

definition appendAirportCircles ::
  "collaborators \<Rightarrow> nat \<Rightarrow> airport list \<Rightarrow> map_scales \<Rightarrow> render_state \<Rightarrow> render_state" where
  "appendAirportCircles c paddingGroup data scales st =
     each (\<lambda>d i. appendOneAirportCircle c paddingGroup d scales) data st"

definition appendChartTitle_map :: "nat \<Rightarrow> render_state \<Rightarrow> render_state" where
  "appendChartTitle_map svg st =
     (let plot = plot_obj st;
          (t, st1) = append_node svg ''text'' st
      in emit [Attr t ''class'' [S ''chartTitle''],
               Attr t ''x'' [N (svg_width plot / 2)],
               Attr t ''y'' [N (padding_top plot * 0.66)],
               Text t [S ''Air routes among airports with highest plane movements (2015)'']] st1)"

record map_legend_area =
  row_spacing :: real
  legend_square_width :: real
  circle_radius :: real
  textOffset_x :: real
  textOffset_y :: real

definition appendLegendOneRow_map ::
  "nat \<Rightarrow> map_legend_area \<Rightarrow> real \<Rightarrow> string \<Rightarrow> string \<Rightarrow> string \<Rightarrow> render_state \<Rightarrow> render_state" where
  "appendLegendOneRow_map legendGroup area rowNum shapeName shapeClass textString st =
     (let st3 =
            (if shapeName = ''circle'' then
               (let (circle, st1) = append_node legendGroup ''circle'' st
                in emit [Attr circle ''class'' [S shapeClass],
                         Attr circle ''cy'' [N (rowNum * row_spacing area)],
                         Attr circle ''r'' [N (circle_radius area)]] st1)
             else if shapeName = ''rect'' then
               (let (r, st1) = append_node legendGroup ''rect'' st
                in emit [Attr r ''class'' [S shapeClass],
                         Attr r ''x'' [N (- legend_square_width area / 2)],
                         Attr r ''y'' [N (- legend_square_width area / 2 + rowNum * row_spacing area)],
                         Attr r ''width'' [N (legend_square_width area)],
                         Attr r ''height'' [N (legend_square_width area)]] st1)
             else st);
          (t, st4) = append_node legendGroup ''text'' st3
      in emit [Attr t ''x'' [N (textOffset_x area)],
               Attr t ''y'' [N (textOffset_y area + rowNum * row_spacing area)],
               Text t [S textString]] st4)"

definition appendLegend_map :: "nat \<Rightarrow> render_state \<Rightarrow> render_state" where
  "appendLegend_map svg st =
     (let plot = plot_obj st;
          area = \<lparr>row_spacing = 18, legend_square_width = 10, circle_radius = 5,
                  textOffset_x = 10, textOffset_y = 4\<rparr>;
          (legendGroup, st1) = append_node svg ''g'' st;
          st2 = emit [Attr legendGroup ''class'' [S ''legend''],
                      Attr legendGroup ''transform''
                        [S ''translate(20,'', N (0.8 * svg_height plot), S '')'']] st1;
          st3 = appendLegendOneRow_map legendGroup area 0 ''rect'' ''eastward'' ''Eastward route'' st2;
          st4 = appendLegendOneRow_map legendGroup area 1 ''rect'' ''westward'' ''Westward route'' st3
      in appendLegendOneRow_map legendGroup area 2 ''circle'' []
           ''Airport (radius proportional to number of movements)'' st4)"

definition draw_map_steps ::
  "collaborators \<Rightarrow> nat \<Rightarrow> nat \<Rightarrow> airport list \<Rightarrow> map_scales \<Rightarrow>
   (render_state \<Rightarrow> js_error + render_state) list" where
  "draw_map_steps c svg paddingGroup data scales =
     [\<lambda>st. Inr (appendRouteArcs_render paddingGroup data scales st),
      \<lambda>st. Inr (appendAirportCircles c paddingGroup data scales st),
      \<lambda>st. Inr (appendChartTitle_map svg st),
      \<lambda>st. Inr (appendLegend_map svg st)]"

text \<open>
  \<^verbatim>\<open>draw\<close> of the map overlay. The data and the base map arrive through
  callbacks; the scales are made once the map is appended, and when the request for the
  map has failed, the error is thrown and nothing more is drawn.
\<close>

definition draw_map_setup ::
  "collaborators \<Rightarrow> map_asset \<Rightarrow> airport list \<Rightarrow>
   (render_state \<Rightarrow> js_error + render_state) list \<times> render_state list \<times> render_state" where
  "draw_map_setup c asset data =
     (let st0 = start_render getPlotArea_map;
          (svg, st1) = append_node 0 ''svg'' st0;
          (paddingGroup, st2) = setupSvgAndPaddingGroup svg st1
      in (case appendMap asset paddingGroup st2 of
            Inl e \<Rightarrow> ([\<lambda>st. Inl e], [st0, st1], st2)
          | Inr st3 \<Rightarrow>
              (draw_map_steps c svg paddingGroup data (makeScales_map (plot_obj st3)),
               [st0, st1, st2], st3)))"

definition draw_map :: "collaborators \<Rightarrow> map_asset \<Rightarrow> airport list \<Rightarrow> js_error + render_state" where
  "draw_map c asset data =
     (case draw_map_setup c asset data of (steps, before, st) \<Rightarrow> run_steps steps st)"

definition draw_map_trace :: "collaborators \<Rightarrow> map_asset \<Rightarrow> airport list \<Rightarrow> render_state list" where
  "draw_map_trace c asset data =
     (case draw_map_setup c asset data of (steps, before, st) \<Rightarrow> before @ trace_steps steps st)"

section \<open>What a render does to the plot\<close>

text \<open>
  A step keeps the plot when the state it returns holds the plot object it was given;
  a step succeeds when it throws on no state.
\<close>

definition keeps_plot :: "(render_state \<Rightarrow> js_error + render_state) \<Rightarrow> bool" where
  "keeps_plot step = (\<forall>st st'. step st = Inr st' \<longrightarrow> plot_obj st' = plot_obj st)"

definition succeeds :: "(render_state \<Rightarrow> js_error + render_state) \<Rightarrow> bool" where
  "succeeds step = (\<forall>st. \<exists>st'. step st = Inr st')"

section \<open>Example inputs\<close>

text \<open>Two airports (the coordinates of Atlanta and of Los Angeles).\<close>

definition atlanta :: airport where
  "atlanta = \<lparr>code = ''ATL'', latitude = 33.6407, longitude = -84.4277, movements2015 = 882497\<rparr>"

definition los_angeles :: airport where
  "los_angeles = \<lparr>code = ''LAX'', latitude = 33.9416, longitude = -118.4085, movements2015 = 655564\<rparr>"

definition chicago :: airport where
  "chicago = \<lparr>code = ''ORD'', latitude = 41.9742, longitude = -87.9073, movements2015 = 875136\<rparr>"

text \<open>The scales of the map overlay as \<^verbatim>\<open>draw\<close> builds them.\<close>

definition map_scales_drawn :: map_scales where
  "map_scales_drawn = makeScales_map getPlotArea_map"

text \<open>An axis tick as the charting library places it, and an element that is rotated.\<close>

definition tick_selection :: "string \<rightharpoonup> string" where
  "tick_selection = [''class'' \<mapsto> ''tick'', ''transform'' \<mapsto> ''translate(0,20.5)'']"

definition rotated_selection :: "string \<rightharpoonup> string" where
  "rotated_selection = [''transform'' \<mapsto> ''rotate(90)'']"

text \<open>
  Collaborators for the examples: every character is 7 pixels wide, a day has 86400000
  milliseconds, and each axis has two ticks.
\<close>

definition example_collaborators :: collaborators where
  "example_collaborators =
     \<lparr>text_width = (\<lambda>textString textClass. 7 * real (length textString)),
      moment_add_days = (\<lambda>d n. d + n * 86400000),
      axis_ticks = (\<lambda>cls. if cls = ''yAxis''
                           then [[''transform'' \<mapsto> ''translate(0,370.5)''],
                                 [''transform'' \<mapsto> ''translate(0,185.5)'']]
                           else [[''transform'' \<mapsto> ''translate(0.5,0)''],
                                 [''transform'' \<mapsto> ''translate(345.5,0)'']])\<rparr>"

text \<open>Four daily rate samples, and the base map answered with its size.\<close>

definition example_rates :: "rate_sample list" where
  "example_rates =
     [\<lparr>date = 0, rate = 0.0412, isRecession = False\<rparr>,
      \<lparr>date = 86400000, rate = 0.0409, isRecession = True\<rparr>,
      \<lparr>date = 172800000, rate = 0.0398, isRecession = True\<rparr>,
      \<lparr>date = 259200000, rate = 0.0401, isRecession = False\<rparr>]"

definition example_asset :: map_asset where
  "example_asset = \<lparr>request_failed = False, origWidth = ''959'', origHeight = ''593''\<rparr>"

section \<open>Properties of the recession collapsing\<close>

lemma for_in_keys_are_strings: "(i, datum) \<in> set (for_in data) \<Longrightarrow> \<exists>s. i = JString s"
  by (auto simp: for_in_def dest!: set_zip_leftD)

lemma map_snd_for_in: "map snd (for_in data) = data"
  by (simp add: for_in_def)

text \<open>
  A key of the loop is a string and \<^verbatim>\<open>data.length-1\<close> a number, so the test
  \<^verbatim>\<open>i === data.length-1\<close> is false at every record, the last included.
\<close>

lemma string_key_never_last: "strict_equals (JString s) (JNumber n) = False"
  by simp

lemma loop_body_flagged_periods:
  "isRecession datum \<Longrightarrow> periods (loop_body data (JString s) datum st) = periods st"
  by (cases "startDate_var st") (simp_all add: loop_body_def)

lemma collapse_loop_flagged:
  "\<forall>(i, datum) \<in> set kvs. (\<exists>s. i = JString s) \<and> isRecession datum \<Longrightarrow>
   periods (collapse_loop data kvs st) = periods st"
proof (induction kvs arbitrary: st)
  case Nil
  then show ?case by simp
next
  case (Cons kv kvs)
  obtain i datum where kv: "kv = (i, datum)" by (cases kv)
  from Cons.prems kv obtain s where i: "i = JString s" and f: "isRecession datum" by auto
  have "periods (collapse_loop data kvs (loop_body data i datum st)) =
        periods (loop_body data i datum st)"
    using Cons.prems by (intro Cons.IH) simp
  then show ?case using kv i f by (simp add: loop_body_flagged_periods)
qed

text \<open>
  Whatever its length, an input whose records are all flagged yields no period at all:
  the run that is open at the last record is never closed.
\<close>

lemma all_flagged_gives_nothing:
  assumes "\<forall>d \<in> set data. isRecession d"
  shows "collapseRecessionPeriods data = []"
proof -
  have "\<forall>(i, datum) \<in> set (for_in data). (\<exists>s. i = JString s) \<and> isRecession datum"
    using assms for_in_keys_are_strings [of _ _ data] map_snd_for_in [of data]
    by (auto simp: for_in_def dest: set_zip_rightD)
  then show ?thesis
    unfolding collapseRecessionPeriods_def by (simp add: collapse_loop_flagged)
qed

text \<open>
  C1. The claim: for a non-empty input whose records are all flagged, the output is the
  one interval from the date of record 0 to the date of the last record. The code
  returns the empty list instead; here for three flagged records on consecutive days
  (the dates are day numbers). The loop does try to close the open run at the last
  record, by \<^verbatim>\<open>i === data.length-1\<close>, but compares a string key with a number.
\<close>

theorem collapse_all_flagged_three_days:
  "collapseRecessionPeriods [sample 1 True, sample 2 True, sample 3 True] = []"
  by (simp add: collapseRecessionPeriods_def for_in_def upt_rec decimal.simps digit_char_def
      loop_body_def sample_def)

text \<open>
  C2, as the claim states it: for the flags F, T, T, F, T on the days 1 to 5 the output
  would be the intervals from day 2 to day 3 and from day 5 to day 5. It is not.
\<close>

theorem collapse_example_counterexample:
  "collapseRecessionPeriods
     [sample 1 False, sample 2 True, sample 3 True, sample 4 False, sample 5 True]
   \<noteq> [\<lparr>startDate = 2, endDate = 3\<rparr>, \<lparr>startDate = 5, endDate = 5\<rparr>]"
  by (simp add: collapseRecessionPeriods_def for_in_def upt_rec decimal.simps digit_char_def
      loop_body_def sample_def)

text \<open>
  C2, amended: for five records with the flags F, T, T, F, T and any dates D1 to D5, the
  output starts with the interval from D2 to D4: a run is closed at the first record
  that is not flagged, and the interval ends at that record's date. Nothing is said
  about the run that starts at the last record.
\<close>

theorem collapse_example_first_interval:
  "take 1 (collapseRecessionPeriods
     [sample d1 False, sample d2 True, sample d3 True, sample d4 False, sample d5 True])
   = [\<lparr>startDate = d2, endDate = d4\<rparr>]"
  by (simp add: collapseRecessionPeriods_def for_in_def upt_rec decimal.simps digit_char_def
      loop_body_def sample_def)

theorem collapse_example_first_interval_witness:
  "take 1 (collapseRecessionPeriods
     [sample 1 False, sample 2 True, sample 3 True, sample 4 False, sample 5 True])
   = [\<lparr>startDate = 2, endDate = 4\<rparr>]"
  by (rule collapse_example_first_interval)

section \<open>Properties of the route arcs\<close>

lemma appendOneRouteArc_appends:
  "appendOneRouteArc routesGroup dep arr scales = routesGroup @ [route_arc scales dep arr]"
  by (simp add: appendOneRouteArc_def route_arc_def Let_def)

lemma route_arc_fields:
  "arc_rx (route_arc scales dep arr) =
     (scale_x scales (longitude arr) - scale_x scales (longitude dep)) * 1.5"
  "arc_ry (route_arc scales dep arr) = arc_rx (route_arc scales dep arr)"
  "arc_xAxisRotation (route_arc scales dep arr) = 0"
  "arc_largeArcFlag (route_arc scales dep arr) = 0"
  "arc_sweepFlag (route_arc scales dep arr) = 1"
  "path_class (route_arc scales dep arr) =
     (if scale_x scales (longitude dep) < scale_x scales (longitude arr)
      then ''eastward'' else ''westward'')"
  by (simp_all add: appendOneRouteArc_def route_arc_def Let_def)

text \<open>
  C3, as the claim states it: the radius is \<open>|arrival.x - departure.x| * 1.5\<close> and
  never negative. For the route from Atlanta to Los Angeles, which runs westward, the
  radius is negative and differs from that value.
\<close>

theorem arc_radius_counterexample:
  "arc_rx (route_arc map_scales_drawn atlanta los_angeles) < 0 \<and>
   arc_rx (route_arc map_scales_drawn atlanta los_angeles) \<noteq>
     \<bar>scale_x map_scales_drawn (longitude los_angeles) -
      scale_x map_scales_drawn (longitude atlanta)\<bar> * 1.5"
  by (simp add: route_arc_fields map_scales_drawn_def makeScales_map_def getPlotArea_map_def
      set_range_def scaleLinear_def atlanta_def los_angeles_def)

text \<open>
  C3, amended: the radius \<open>rx\<close> is the signed difference \<open>arrival.x - departure.x\<close>
  times 1.5, and \<open>ry\<close> equals \<open>rx\<close>. Its absolute value is \<open>|arrival.x - departure.x| * 1.5\<close>;
  it is negative exactly for a westward pair (\<open>arrival.x < departure.x\<close>) and
  non-negative exactly when \<open>departure.x \<le> arrival.x\<close>.
\<close>

theorem arc_radius_signed:
  "appendOneRouteArc routesGroup dep arr scales = routesGroup @ [route_arc scales dep arr] \<and>
   arc_rx (route_arc scales dep arr) =
     (scale_x scales (longitude arr) - scale_x scales (longitude dep)) * 1.5 \<and>
   arc_ry (route_arc scales dep arr) = arc_rx (route_arc scales dep arr) \<and>
   \<bar>arc_rx (route_arc scales dep arr)\<bar> =
     \<bar>scale_x scales (longitude arr) - scale_x scales (longitude dep)\<bar> * 1.5 \<and>
   (arc_rx (route_arc scales dep arr) < 0 \<longleftrightarrow>
      scale_x scales (longitude arr) < scale_x scales (longitude dep)) \<and>
   (0 \<le> arc_rx (route_arc scales dep arr) \<longleftrightarrow>
      scale_x scales (longitude dep) \<le> scale_x scales (longitude arr))"
proof -
  define dx where "dx = scale_x scales (longitude arr) - scale_x scales (longitude dep)"
  have rx: "arc_rx (route_arc scales dep arr) = dx * 1.5"
    by (simp add: route_arc_fields dx_def)
  have "\<bar>dx * 1.5\<bar> = \<bar>dx\<bar> * 1.5"
    by (simp add: abs_mult)
  moreover have "dx * 1.5 < 0 \<longleftrightarrow> dx < 0"
    by (simp add: mult_less_0_iff)
  moreover have "0 \<le> dx * 1.5 \<longleftrightarrow> 0 \<le> dx"
    by (simp add: zero_le_mult_iff)
  moreover have "dx < 0 \<longleftrightarrow> scale_x scales (longitude arr) < scale_x scales (longitude dep)"
    by (simp add: dx_def)
  moreover have "0 \<le> dx \<longleftrightarrow> scale_x scales (longitude dep) \<le> scale_x scales (longitude arr)"
    by (simp add: dx_def)
  moreover have "arc_ry (route_arc scales dep arr) = arc_rx (route_arc scales dep arr)"
    by (simp add: route_arc_fields)
  ultimately show ?thesis
    unfolding rx dx_def [symmetric] by (simp only: appendOneRouteArc_appends simp_thms)
qed

theorem arc_radius_signed_witness:
  "arc_rx (route_arc map_scales_drawn los_angeles atlanta) =
     (scale_x map_scales_drawn (longitude atlanta) -
      scale_x map_scales_drawn (longitude los_angeles)) * 1.5 \<and>
   0 \<le> arc_rx (route_arc map_scales_drawn los_angeles atlanta)"
proof -
  have "scale_x map_scales_drawn (longitude los_angeles) \<le>
        scale_x map_scales_drawn (longitude atlanta)"
    by (simp add: map_scales_drawn_def makeScales_map_def getPlotArea_map_def set_range_def
        scaleLinear_def atlanta_def los_angeles_def)
  then show ?thesis
    using arc_radius_signed [of "[]" los_angeles atlanta map_scales_drawn] by simp
qed

text \<open>
  C4. The arc command always has x-axis-rotation 0, large-arc-flag 0 and sweep-flag 1.
  The path is classed eastward exactly when \<open>departure.x < arrival.x\<close> and westward
  otherwise; the latitudes and the latitude scale play no part in the class.
\<close>

theorem arc_flags_and_class:
  "arc_xAxisRotation (route_arc scales dep arr) = 0 \<and>
   arc_largeArcFlag (route_arc scales dep arr) = 0 \<and>
   arc_sweepFlag (route_arc scales dep arr) = 1 \<and>
   (path_class (route_arc scales dep arr) = ''eastward'' \<longleftrightarrow>
      scale_x scales (longitude dep) < scale_x scales (longitude arr)) \<and>
   (path_class (route_arc scales dep arr) = ''westward'' \<longleftrightarrow>
      \<not> scale_x scales (longitude dep) < scale_x scales (longitude arr)) \<and>
   path_class (route_arc (scales\<lparr>scale_y := sy\<rparr>) (dep\<lparr>latitude := lat1\<rparr>)
                 (arr\<lparr>latitude := lat2\<rparr>)) =
     path_class (route_arc scales dep arr)"
  by (simp add: route_arc_fields)

theorem arc_flags_and_class_witness:
  "arc_sweepFlag (route_arc map_scales_drawn atlanta los_angeles) = 1 \<and>
   arc_sweepFlag (route_arc map_scales_drawn los_angeles atlanta) = 1 \<and>
   path_class (route_arc map_scales_drawn atlanta los_angeles) = ''westward'' \<and>
   path_class (route_arc map_scales_drawn los_angeles atlanta) = ''eastward''"
proof -
  have "scale_x map_scales_drawn (longitude los_angeles) <
        scale_x map_scales_drawn (longitude atlanta)"
    by (simp add: map_scales_drawn_def makeScales_map_def getPlotArea_map_def set_range_def
        scaleLinear_def atlanta_def los_angeles_def)
  then show ?thesis
    using arc_flags_and_class [of map_scales_drawn atlanta los_angeles]
      arc_flags_and_class [of map_scales_drawn los_angeles atlanta]
    by simp
qed

lemma route_loop_eq:
  "j \<le> length data \<Longrightarrow>
   route_loop data scales d i j g =
     g @ map (\<lambda>k. route_arc scales d (data ! k)) (filter (\<lambda>k. k \<noteq> i) [j..<length data])"
proof (induction data scales d i j g rule: route_loop.induct)
  case (1 data scales d i j g)
  show ?case
  proof (cases "j < length data")
    case True
    then have up: "[j..<length data] = j # [j + 1..<length data]"
      by (simp add: upt_conv_Cons)
    from True have "j + 1 \<le> length data" by simp
    from "1.IH" [OF True this] True show ?thesis
      by (subst route_loop.simps) (simp add: up appendOneRouteArc_appends)
  next
    case False
    with "1.prems" show ?thesis
      by (subst route_loop.simps) simp
  qed
qed

lemma each_from_append:
  "each_from k (\<lambda>d i g. g @ F d i) ds st =
     st @ concat (map (\<lambda>(d, i). F d i) (zip ds [k..<k + length ds]))"
proof (induction ds arbitrary: k st)
  case Nil
  then show ?case by simp
next
  case (Cons d ds)
  have "[k..<k + Suc (length ds)] = k # [Suc k..<Suc k + length ds]"
    by (subst upt_rec) simp
  then show ?case using Cons.IH [of "Suc k" "st @ F d k"] by simp
qed

lemma zip_index: "zip ds [0..<length ds] = map (\<lambda>i. (ds ! i, i)) [0..<length ds]"
  by (rule nth_equalityI) simp_all

lemma appendRouteArcs_pairs:
  "appendRouteArcs data scales =
     concat (map (\<lambda>i. map (\<lambda>j. route_arc scales (data ! i) (data ! j))
                          (filter (\<lambda>j. j \<noteq> i) [0..<length data]))
                 [0..<length data])"
proof -
  have "appendRouteArcs data scales =
      each_from 0 (\<lambda>d i g. g @ map (\<lambda>k. route_arc scales d (data ! k))
                                    (filter (\<lambda>k. k \<noteq> i) [0..<length data])) data []"
    by (simp add: appendRouteArcs_def each_def route_loop_eq)
  also have "\<dots> = concat (map (\<lambda>(d, i). map (\<lambda>k. route_arc scales d (data ! k))
                                    (filter (\<lambda>k. k \<noteq> i) [0..<length data]))
                         (zip data [0..<0 + length data]))"
    by (simp only: each_from_append append_Nil)
  finally show ?thesis
    by (simp add: zip_index comp_def)
qed

lemma length_filter_neq:
  "i < n \<Longrightarrow> length (filter (\<lambda>j. j \<noteq> i) [0..<n]) = n - 1"
proof -
  assume i: "i < n"
  have "length (filter (\<lambda>j. j \<noteq> i) [0..<n]) + length (filter (\<lambda>j. \<not> j \<noteq> i) [0..<n]) = length [0..<n]"
    by (rule sum_length_filter_compl [symmetric, THEN sym])
  moreover have "filter (\<lambda>j. \<not> j \<noteq> i) [0..<n] = [i]"
    using i by (induction n) (auto simp: less_Suc_eq)
  ultimately show ?thesis by simp
qed

lemma length_appendRouteArcs:
  "length (appendRouteArcs data scales) = length data * (length data - 1)"
proof -
  have "map (\<lambda>i. length (filter (\<lambda>j. j \<noteq> i) [0..<length data])) [0..<length data]
        = map (\<lambda>i. length data - 1) [0..<length data]"
    by (rule map_cong) (simp_all add: length_filter_neq)
  then have "sum_list (map (\<lambda>i. length (filter (\<lambda>j. j \<noteq> i) [0..<length data])) [0..<length data])
        = length data * (length data - 1)"
    by (simp only: sum_list_triv length_upt) simp
  then show ?thesis
    by (simp add: appendRouteArcs_pairs length_concat comp_def)
qed

text \<open>
  C10. For a dataset of \<open>n\<close> airports, \<^verbatim>\<open>appendRouteArcs\<close> appends exactly
  \<open>n * (n - 1)\<close> paths: for every index \<open>i\<close> in order, and every index \<open>j\<close> other
  than \<open>i\<close> in order, the arc from airport \<open>i\<close> to airport \<open>j\<close>. Both directions of
  a pair are drawn, and no arc joins an index to itself.
\<close>

theorem appendRouteArcs_fan_out:
  "length (appendRouteArcs data scales) = length data * (length data - 1) \<and>
   appendRouteArcs data scales =
     concat (map (\<lambda>i. map (\<lambda>j. route_arc scales (data ! i) (data ! j))
                          (filter (\<lambda>j. j \<noteq> i) [0..<length data]))
                 [0..<length data])"
  using length_appendRouteArcs appendRouteArcs_pairs by blast

theorem appendRouteArcs_fan_out_witness:
  "length (appendRouteArcs [atlanta, los_angeles, chicago] map_scales_drawn) = 6 \<and>
   appendRouteArcs [atlanta, los_angeles] map_scales_drawn =
     [route_arc map_scales_drawn atlanta los_angeles,
      route_arc map_scales_drawn los_angeles atlanta]"
  using appendRouteArcs_fan_out [of "[atlanta, los_angeles, chicago]" map_scales_drawn]
    appendRouteArcs_fan_out [of "[atlanta, los_angeles]" map_scales_drawn]
  by (simp add: upt_rec)

section \<open>Properties of the tick translation\<close>

lemma first_some_down:
  "first_some (map f (rev [0..<Suc n])) = Some v \<longleftrightarrow>
     (\<exists>k \<le> n. f k = Some v \<and> (\<forall>j. k < j \<and> j \<le> n \<longrightarrow> f j = None))"
proof (induction n)
  case 0
  then show ?case by (cases "f 0") auto
next
  case (Suc n)
  show ?case
  proof (cases "f (Suc n)")
    case None
    have "first_some (map f (rev [0..<Suc (Suc n)])) = first_some (map f (rev [0..<Suc n]))"
      using None by simp
    also have "\<dots> = Some v \<longleftrightarrow> (\<exists>k \<le> n. f k = Some v \<and> (\<forall>j. k < j \<and> j \<le> n \<longrightarrow> f j = None))"
      by (rule Suc.IH)
    also have "\<dots> \<longleftrightarrow> (\<exists>k \<le> Suc n. f k = Some v \<and> (\<forall>j. k < j \<and> j \<le> Suc n \<longrightarrow> f j = None))"
      using None by (metis le_Suc_eq le_SucI option.distinct(1))
    finally show ?thesis .
  next
    case (Some w)
    have "first_some (map f (rev [0..<Suc (Suc n)])) = Some w"
      using Some by simp
    moreover have "(\<exists>k \<le> Suc n. f k = Some v \<and> (\<forall>j. k < j \<and> j \<le> Suc n \<longrightarrow> f j = None)) \<longleftrightarrow> w = v"
      using Some by (metis le_refl option.distinct(1) option.inject not_le order.strict_iff_order)
    ultimately show ?thesis by auto
  qed
qed

lemma run_le:
  "k \<le> length (takeWhile (\<lambda>c. \<not> line_terminator c) s) \<longleftrightarrow> k \<le> length s \<and> dot_string (take k s)"
proof
  assume k: "k \<le> length (takeWhile (\<lambda>c. \<not> line_terminator c) s)"
  have "take k s = take k (takeWhile (\<lambda>c. \<not> line_terminator c) s)"
    using k by (metis takeWhile_dropWhile_id take_append diff_is_0_eq append_Nil2 take_0)
  then have "set (take k s) \<subseteq> set (takeWhile (\<lambda>c. \<not> line_terminator c) s)"
    by (metis set_take_subset)
  then have "dot_string (take k s)"
    by (auto simp: dot_string_def dest: set_takeWhileD)
  moreover have "k \<le> length s"
    using k length_takeWhile_le [of "\<lambda>c. \<not> line_terminator c" s] by simp
  ultimately show "k \<le> length s \<and> dot_string (take k s)" by simp
next
  assume a: "k \<le> length s \<and> dot_string (take k s)"
  show "k \<le> length (takeWhile (\<lambda>c. \<not> line_terminator c) s)"
  proof (rule ccontr)
    assume "\<not> k \<le> length (takeWhile (\<lambda>c. \<not> line_terminator c) s)"
    then have lt: "length (takeWhile (\<lambda>c. \<not> line_terminator c) s) < k" by simp
    with a have lt2: "length (takeWhile (\<lambda>c. \<not> line_terminator c) s) < length s" by simp
    then have "\<not> \<not> line_terminator (s ! length (takeWhile (\<lambda>c. \<not> line_terminator c) s))"
      by (rule nth_length_takeWhile)
    moreover have "s ! length (takeWhile (\<lambda>c. \<not> line_terminator c) s) \<in> set (take k s)"
      using lt lt2 by (metis in_set_conv_nth length_take min_less_iff_conj nth_take)
    ultimately show False using a by (auto simp: dot_string_def)
  qed
qed

lemma rx_match_lits:
  "rx_match (map Lit cs @ p) s =
     (if take (length cs) s = cs then rx_match p (drop (length cs) s) else None)"
proof (induction cs arbitrary: s)
  case Nil
  then show ?case by simp
next
  case (Cons c cs)
  then show ?case by (cases s) auto
qed

lemma rx_match_last_lit: "rx_match [Lit c] r = Some g \<longleftrightarrow> r = [c] \<and> g = []"
  by (cases r) auto

text \<open>The last group: everything up to the closing literal.\<close>

lemma rx_match_last_group:
  "rx_match [AnyStarGroup, Lit c] s = Some gs \<longleftrightarrow> (\<exists>b. s = b @ [c] \<and> dot_string b \<and> gs = [b])"
proof
  assume "rx_match [AnyStarGroup, Lit c] s = Some gs"
  then obtain k where k: "k \<le> length (takeWhile (\<lambda>c. \<not> line_terminator c) s)"
    and m: "map_option (\<lambda>groups. take k s # groups) (rx_match [Lit c] (drop k s)) = Some gs"
    unfolding rx_match.simps(4) first_some_down by blast
  from m have d: "drop k s = [c]" and gs: "gs = [take k s]"
    by (auto simp: rx_match_last_lit)
  from d have "s = take k s @ [c]" by (metis append_take_drop_id)
  moreover from k have "dot_string (take k s)" by (simp add: run_le)
  ultimately show "\<exists>b. s = b @ [c] \<and> dot_string b \<and> gs = [b]" using gs by blast
next
  assume "\<exists>b. s = b @ [c] \<and> dot_string b \<and> gs = [b]"
  then obtain b where s: "s = b @ [c]" and b: "dot_string b" and gs: "gs = [b]" by blast
  let ?f = "\<lambda>k. map_option (\<lambda>groups. take k s # groups) (rx_match [Lit c] (drop k s))"
  have "length b \<le> length (takeWhile (\<lambda>c. \<not> line_terminator c) s)"
    using s b by (simp add: run_le)
  moreover have "?f (length b) = Some gs"
    using s gs by simp
  moreover have "\<forall>j. length b < j \<and> j \<le> length (takeWhile (\<lambda>c. \<not> line_terminator c) s) \<longrightarrow> ?f j = None"
    using s by (auto simp: rx_match_last_lit)
  ultimately show "rx_match [AnyStarGroup, Lit c] s = Some gs"
    unfolding rx_match.simps(4) first_some_down by blast
qed


lemma dot_string_append [simp]: "dot_string (a @ b) \<longleftrightarrow> dot_string a \<and> dot_string b"
  by (auto simp: dot_string_def)

lemma dot_string_Cons [simp]: "dot_string (c # b) \<longleftrightarrow> \<not> line_terminator c \<and> dot_string b"
  by (auto simp: dot_string_def)

lemma dot_string_Nil [simp]: "dot_string []"
  by (simp add: dot_string_def)

lemma rx_match_tail:
  "rx_match (Lit c # [AnyStarGroup, Lit e]) r = Some g \<longleftrightarrow>
     (\<exists>b. r = c # b @ [e] \<and> dot_string b \<and> g = [b])"
  by (cases r) (auto simp: rx_match_last_group)

lemma rx_match_two_groups:
  assumes ce: "c \<noteq> e" and cdot: "\<not> line_terminator c"
  shows "rx_match (AnyStarGroup # Lit c # [AnyStarGroup, Lit e]) s = Some gs \<longleftrightarrow>
     (\<exists>a b. s = a @ c # b @ [e] \<and> dot_string a \<and> dot_string b \<and> c \<notin> set b \<and> gs = [a, b])"
proof -
  let ?run = "length (takeWhile (\<lambda>c. \<not> line_terminator c) s)"
  let ?f = "\<lambda>k. map_option (\<lambda>groups. take k s # groups)
                   (rx_match (Lit c # [AnyStarGroup, Lit e]) (drop k s))"
  have f_Some: "?f k = Some g \<longleftrightarrow> (\<exists>b. drop k s = c # b @ [e] \<and> dot_string b \<and> g = [take k s, b])"
    for k g
    by (auto simp: rx_match_tail)
  have unfold: "rx_match (AnyStarGroup # Lit c # [AnyStarGroup, Lit e]) s = Some gs \<longleftrightarrow>
      (\<exists>k \<le> ?run. ?f k = Some gs \<and> (\<forall>j. k < j \<and> j \<le> ?run \<longrightarrow> ?f j = None))"
    by (subst rx_match.simps(4)) (rule first_some_down)
  show ?thesis
  proof
    assume "rx_match (AnyStarGroup # Lit c # [AnyStarGroup, Lit e]) s = Some gs"
    then obtain k where k: "k \<le> ?run" and fk: "?f k = Some gs"
      and mx: "\<forall>j. k < j \<and> j \<le> ?run \<longrightarrow> ?f j = None"
      using unfold by blast
    from fk obtain b where d: "drop k s = c # b @ [e]" and b: "dot_string b"
      and gs: "gs = [take k s, b]"
      using f_Some by blast
    have s: "s = take k s @ c # b @ [e]"
      using d by (metis append_take_drop_id)
    have a: "dot_string (take k s)" and kl: "k \<le> length s"
      using k by (simp_all add: run_le)
    have "c \<notin> set b"
    proof
      assume "c \<in> set b"
      then obtain b1 b2 where b12: "b = b1 @ c # b2"
        by (meson split_list)
      let ?j = "k + Suc (length b1)"
      have s2: "s = (take k s @ c # b1) @ c # b2 @ [e]"
        using s b12 by simp
      have lenj: "length (take k s @ c # b1) = ?j"
        using kl by simp
      have tj: "take ?j s = take k s @ c # b1"
        using s2 lenj by (metis append_eq_conv_conj)
      have dj: "drop ?j s = c # b2 @ [e]"
        using s2 lenj by (metis append_eq_conv_conj)
      have "?j \<le> length s"
        using s2 lenj by (metis le_add1 length_append)
      moreover have "dot_string (take ?j s)"
        using tj a b b12 cdot by simp
      ultimately have "?j \<le> ?run" by (simp add: run_le)
      with mx have "?f ?j = None" by simp
      moreover have "\<exists>b'. drop ?j s = c # b' @ [e] \<and> dot_string b' \<and> [take ?j s, b2] = [take ?j s, b']"
        using dj b b12 by simp
      then have "?f ?j = Some [take ?j s, b2]"
        by (simp only: f_Some)
      ultimately show False by simp
    qed
    with s a b gs
    show "\<exists>a b. s = a @ c # b @ [e] \<and> dot_string a \<and> dot_string b \<and> c \<notin> set b \<and> gs = [a, b]"
      by blast
  next
    assume "\<exists>a b. s = a @ c # b @ [e] \<and> dot_string a \<and> dot_string b \<and> c \<notin> set b \<and> gs = [a, b]"
    then obtain a b where s: "s = a @ c # b @ [e]" and a: "dot_string a" and b: "dot_string b"
      and cb: "c \<notin> set b" and gs: "gs = [a, b]"
      by blast
    have "length a \<le> ?run"
      using s a by (simp add: run_le)
    moreover have "\<exists>b'. drop (length a) s = c # b' @ [e] \<and> dot_string b' \<and> gs = [take (length a) s, b']"
      using s b gs by simp
    then have "?f (length a) = Some gs"
      by (simp only: f_Some)
    moreover have "?f j = None" if j: "length a < j" for j
    proof (rule ccontr)
      assume "?f j \<noteq> None"
      then obtain g where "?f j = Some g" by blast
      then obtain b' where dj: "drop j s = c # b' @ [e]"
        using f_Some by blast
      then have jl: "j < length s"
        by (metis drop_all list.distinct(1) not_le)
      have "s ! j = c"
        using dj jl by (metis Cons_nth_drop_Suc list.inject)
      moreover have "s ! j = (b @ [e]) ! (j - Suc (length a))"
        using s j by (simp add: nth_append nth_Cons')
      moreover have "j - Suc (length a) < length (b @ [e])"
        using s j jl by simp
      ultimately have "c \<in> set (b @ [e])"
        by (metis nth_mem)
      with cb ce show False by simp
    qed
    ultimately show "rx_match (AnyStarGroup # Lit c # [AnyStarGroup, Lit e]) s = Some gs"
      using unfold by blast
  qed
qed


lemma rx_match_prefix:
  "rx_match (map Lit cs @ p) s = Some gs \<longleftrightarrow> (\<exists>r. s = cs @ r \<and> rx_match p r = Some gs)"
proof -
  have "take (length cs) s = cs \<and> rx_match p (drop (length cs) s) = Some gs \<longleftrightarrow>
        (\<exists>r. s = cs @ r \<and> rx_match p r = Some gs)"
    by (metis append_eq_conv_conj)
  moreover have "rx_match (map Lit cs @ p) s = Some gs \<longleftrightarrow>
        take (length cs) s = cs \<and> rx_match p (drop (length cs) s) = Some gs"
    by (simp add: rx_match_lits)
  ultimately show ?thesis
    by (simp only:)
qed

lemma translate_pattern_match:
  "rx_match translate_pattern t = Some gs \<longleftrightarrow>
     (\<exists>a b. t = ''translate('' @ a @ '','' @ b @ '')'' \<and> dot_string a \<and> dot_string b \<and>
            CHR '','' \<notin> set b \<and> gs = [a, b])"
proof -
  have nt: "\<not> line_terminator (CHR '','')"
    by (simp add: line_terminator_def)
  have ne: "CHR '','' \<noteq> CHR '')''"
    by simp
  have "rx_match translate_pattern t = Some gs \<longleftrightarrow>
      (\<exists>r. t = ''translate('' @ r \<and>
           rx_match [AnyStarGroup, Lit (CHR '',''), AnyStarGroup, Lit (CHR '')'')] r = Some gs)"
    unfolding translate_pattern_def by (simp only: rx_match_prefix append.simps)
  also have "\<dots> \<longleftrightarrow> (\<exists>a b. t = ''translate('' @ a @ '','' @ b @ '')'' \<and> dot_string a \<and>
      dot_string b \<and> CHR '','' \<notin> set b \<and> gs = [a, b])"
    by (auto simp: rx_match_two_groups [OF ne nt])
  finally show ?thesis .
qed

text \<open>A match may be split at its last comma.\<close>

lemma matches_translate_last_comma:
  "matches_translate t \<longleftrightarrow>
     (\<exists>a b. t = ''translate('' @ a @ '','' @ b @ '')'' \<and> dot_string a \<and> dot_string b \<and>
            CHR '','' \<notin> set b)"
proof
  assume "matches_translate t"
  then obtain a b where t: "t = ''translate('' @ a @ '','' @ b @ '')''"
    and a: "dot_string a" and b: "dot_string b"
    unfolding matches_translate_def by blast
  show "\<exists>a b. t = ''translate('' @ a @ '','' @ b @ '')'' \<and> dot_string a \<and> dot_string b \<and>
            CHR '','' \<notin> set b"
  proof (cases "CHR '','' \<in> set b")
    case False
    with t a b show ?thesis by blast
  next
    case True
    then obtain b1 b2 where b12: "b = b1 @ CHR '','' # b2" and last: "CHR '','' \<notin> set b2"
      by (meson split_list_last)
    have "t = ''translate('' @ (a @ '','' @ b1) @ '','' @ b2 @ '')''"
      using t b12 by simp
    moreover have "dot_string (a @ '','' @ b1)"
      using a b b12 by (simp add: line_terminator_def)
    moreover have "dot_string b2"
      using b b12 by simp
    ultimately show ?thesis using last by blast
  qed
next
  assume "\<exists>a b. t = ''translate('' @ a @ '','' @ b @ '')'' \<and> dot_string a \<and> dot_string b \<and>
            CHR '','' \<notin> set b"
  then show "matches_translate t"
    unfolding matches_translate_def by blast
qed

lemma string_match_None: "string_match translate_pattern t = None \<longleftrightarrow> \<not> matches_translate t"
proof -
  have "string_match translate_pattern t = None \<longleftrightarrow> (\<forall>gs. rx_match translate_pattern t \<noteq> Some gs)"
    by (cases "rx_match translate_pattern t") (simp_all add: string_match_def)
  also have "\<dots> \<longleftrightarrow> \<not> matches_translate t"
    unfolding translate_pattern_match matches_translate_last_comma by blast
  finally show ?thesis .
qed

lemma string_match_Some:
  "string_match translate_pattern t = Some m \<longleftrightarrow>
     (\<exists>a b. t = ''translate('' @ a @ '','' @ b @ '')'' \<and> dot_string a \<and> dot_string b \<and>
            CHR '','' \<notin> set b \<and> m = [t, a, b])"
proof -
  have "string_match translate_pattern t = Some m \<longleftrightarrow>
        (\<exists>gs. rx_match translate_pattern t = Some gs \<and> m = t # gs)"
    by (cases "rx_match translate_pattern t") (auto simp: string_match_def)
  then show ?thesis
    unfolding translate_pattern_match by blast
qed

text \<open>
  C7. For a selection whose \<^verbatim>\<open>transform\<close> attribute is a string,
  \<^verbatim>\<open>extractTranslation\<close> raises an error exactly when the string does not match
  \<^verbatim>\<open>^translate\((.*),(.*)\)$\<close>; the error is then the \<^verbatim>\<open>Error\<close> whose
  message is \<^verbatim>\<open>Don't know how to parse transform: \<close> followed by the transform
  between two apostrophes. When the string matches, the result is the record of
  the two groups, each converted to a number; the groups are split at the last comma.
\<close>

theorem extractTranslation_raises_iff_no_match:
  assumes tr: "selection ''transform'' = Some transform"
  shows "((\<exists>e. extractTranslation to_number selection = Inl e) \<longleftrightarrow> \<not> matches_translate transform) \<and>
     (\<not> matches_translate transform \<longrightarrow>
        extractTranslation to_number selection =
          Inl (Error (''Don't know how to parse transform: '' @ [CHR 0x27] @ transform @ [CHR 0x27]))) \<and>
     (matches_translate transform \<longrightarrow>
        (\<exists>a b. transform = ''translate('' @ a @ '','' @ b @ '')'' \<and> CHR '','' \<notin> set b \<and>
               extractTranslation to_number selection =
                 Inr \<lparr>trans_x = to_number a, trans_y = to_number b\<rparr>))"
proof (cases "matches_translate transform")
  case False
  then have "string_match translate_pattern transform = None"
    by (simp add: string_match_None)
  then have "extractTranslation to_number selection =
      Inl (Error (''Don't know how to parse transform: '' @ [CHR 0x27] @ transform @ [CHR 0x27]))"
    using tr by (simp add: extractTranslation_def parse_error_message_def)
  with False show ?thesis by simp
next
  case True
  then have "string_match translate_pattern transform \<noteq> None"
    by (simp add: string_match_None)
  then obtain m where m: "string_match translate_pattern transform = Some m"
    by blast
  then obtain a b where t: "transform = ''translate('' @ a @ '','' @ b @ '')''"
    and cb: "CHR '','' \<notin> set b" and mab: "m = [transform, a, b]"
    unfolding string_match_Some by blast
  have "extractTranslation to_number selection = Inr \<lparr>trans_x = to_number a, trans_y = to_number b\<rparr>"
    using tr m mab by (simp add: extractTranslation_def)
  with True t cb show ?thesis by auto
qed

theorem extractTranslation_raises_iff_no_match_witness:
  "tick_selection ''transform'' = Some ''translate(0,20.5)'' \<and>
   matches_translate ''translate(0,20.5)'' \<and>
   extractTranslation (\<lambda>s. s) tick_selection = Inr \<lparr>trans_x = ''0'', trans_y = ''20.5''\<rparr> \<and>
   rotated_selection ''transform'' = Some ''rotate(90)'' \<and>
   \<not> matches_translate ''rotate(90)'' \<and>
   extractTranslation (\<lambda>s. s) rotated_selection =
     Inl (Error (''Don't know how to parse transform: '' @ [CHR 0x27] @ ''rotate(90)'' @ [CHR 0x27]))"
proof -
  have t: "tick_selection ''transform'' = Some ''translate(0,20.5)''"
    by (simp add: tick_selection_def)
  have r: "rotated_selection ''transform'' = Some ''rotate(90)''"
    by (simp add: rotated_selection_def)
  have et: "extractTranslation (\<lambda>s. s) tick_selection = Inr \<lparr>trans_x = ''0'', trans_y = ''20.5''\<rparr>"
    by code_simp
  have er: "extractTranslation (\<lambda>s. s) rotated_selection =
      Inl (Error (''Don't know how to parse transform: '' @ [CHR 0x27] @ ''rotate(90)'' @ [CHR 0x27]))"
    by code_simp
  from extractTranslation_raises_iff_no_match
    [where selection = tick_selection and transform = "''translate(0,20.5)''"
       and to_number = "\<lambda>s. s", OF t] et
  have "matches_translate ''translate(0,20.5)''"
    by auto
  moreover from extractTranslation_raises_iff_no_match
    [where selection = rotated_selection and transform = "''rotate(90)''"
       and to_number = "\<lambda>s. s", OF r] er
  have "\<not> matches_translate ''rotate(90)''"
    by auto
  ultimately show ?thesis
    using t r et er by simp
qed

section \<open>Properties of the rounding\<close>

lemma expo_bounds:
  "0 < x \<Longrightarrow> 2 powi expo x \<le> x \<and> x < 2 powi (expo x + 1)"
proof (induction x rule: expo.induct)
  case (1 x)
  show ?case
  proof (cases "2 \<le> x")
    case True
    with "1.prems" have ih: "2 powi expo (x / 2) \<le> x / 2 \<and> x / 2 < 2 powi (expo (x / 2) + 1)"
      by (intro "1.IH"(1)) auto
    have e: "expo x = expo (x / 2) + 1"
      using True "1.prems" by (subst expo.simps) simp
    show ?thesis
      using ih unfolding e by (simp add: power_int_add field_simps)
  next
    case False
    show ?thesis
    proof (cases "x < 1")
      case True
      with "1.prems" False
      have ih: "2 powi expo (x * 2) \<le> x * 2 \<and> x * 2 < 2 powi (expo (x * 2) + 1)"
        by (intro "1.IH"(2)) auto
      have e: "expo x = expo (x * 2) - 1"
        using True False "1.prems" by (subst expo.simps) simp
      show ?thesis
        using ih unfolding e by (simp add: power_int_add power_int_diff field_simps)
    next
      case x1: False
      have e: "expo x = 0"
        using x1 False "1.prems" by (subst expo.simps) simp
      show ?thesis
        using x1 False unfolding e by simp
    qed
  qed
qed



lemma round_half_even_near:
  "0 \<le> d \<Longrightarrow> d < 1 / 2 \<Longrightarrow> round_half_even (of_int n + d) = n"
proof -
  assume d: "0 \<le> d" "d < 1 / 2"
  then have "\<lfloor>of_int n + d\<rfloor> = n"
    by (intro floor_unique) auto
  then show ?thesis
    using d by (simp add: round_half_even_def Let_def)
qed

lemma round_half_even_int: "round_half_even (of_int n) = n"
  using round_half_even_near [of 0 n] by simp









lemma fl_int:
  assumes m: "\<bar>m\<bar> < 2 ^ 53"
  shows "fl (of_int m) = of_int m"
proof (cases "m = 0")
  case True
  then show ?thesis by (simp add: fl_def round_half_even_def)
next
  case False
  let ?x = "of_int m :: real"
  have pos: "0 < \<bar>?x\<bar>" using False by simp
  have ge1: "1 \<le> \<bar>?x\<bar>" using False by (simp flip: of_int_abs)
  have lt: "\<bar>?x\<bar> < 2 powi 53"
  proof -
    have "real_of_int \<bar>m\<bar> < real_of_int (2 ^ 53)" using m by (simp only: of_int_less_iff)
    then show ?thesis by simp
  qed
  from expo_bounds [OF pos] have lo: "2 powi expo \<bar>?x\<bar> \<le> \<bar>?x\<bar>"
    and hi: "\<bar>?x\<bar> < 2 powi (expo \<bar>?x\<bar> + 1)" by simp_all
  have e0: "0 \<le> expo \<bar>?x\<bar>"
  proof (rule ccontr)
    assume "\<not> 0 \<le> expo \<bar>?x\<bar>"
    then have "(2::real) powi (expo \<bar>?x\<bar> + 1) \<le> 2 powi 0"
      by (intro power_int_increasing) auto
    with hi ge1 show False by simp
  qed
  have e52: "expo \<bar>?x\<bar> \<le> 52"
  proof (rule ccontr)
    assume "\<not> expo \<bar>?x\<bar> \<le> 52"
    then have "(2::real) powi 53 \<le> 2 powi expo \<bar>?x\<bar>"
      by (intro power_int_increasing) auto
    with lo lt show False by linarith
  qed
  define k where "k = nat (52 - expo \<bar>?x\<bar>)"
  have b: "binade ?x = expo \<bar>?x\<bar>" using e0 by (simp add: binade_def)
  have q: "quantum ?x = 1 / 2 ^ k"
  proof -
    have "binade ?x - 52 = - int k" using e52 by (simp add: b k_def)
    then have "quantum ?x = 2 powi (- int k)" by (simp only: quantum_def)
    also have "\<dots> = 1 / 2 ^ k" by (simp add: power_int_minus field_simps)
    finally show ?thesis .
  qed
  have "?x / quantum ?x = of_int (m * 2 ^ k)"
    by (simp add: q)
  then have "round_half_even (?x / quantum ?x) = m * 2 ^ k"
    by (simp only: round_half_even_int)
  then show ?thesis
    by (simp add: fl_def q)
qed

section \<open>Properties of the legend area\<close>


lemma fl_numeral_10 [simp]: "fl 10 = 10" and fl_numeral_20: "fl 20 = 20"
  using fl_int [of 10] fl_int [of 20] by simp_all















section \<open>Properties of the linear scale\<close>

text \<open>
  C5. The linear scale maps a value to
  \<open>range.min + (value - domain.min) / (domain.max - domain.min) * (range.max - range.min)\<close>,
  also when the range is inverted. For the domain from 0 to 100 and the range from 200
  down to 0 it maps 0 to 200, 100 to 0 and 50 to 100, and it is strictly decreasing; so
  is every scale with an increasing domain and an inverted range, the value scale of the
  bar chart among them.
\<close>

theorem scaleLinear_inverted_range:
  "(d0 \<noteq> d1 \<longrightarrow>
      scaleLinear (d0, d1) (r0, r1) v = r0 + (v - d0) / (d1 - d0) * (r1 - r0)) \<and>
   scaleLinear (0, 100) (200, 0) 0 = 200 \<and>
   scaleLinear (0, 100) (200, 0) 100 = 0 \<and>
   scaleLinear (0, 100) (200, 0) 50 = 100 \<and>
   (u < w \<longrightarrow> scaleLinear (0, 100) (200, 0) w < scaleLinear (0, 100) (200, 0) u) \<and>
   (d0 < d1 \<and> r1 < r0 \<and> u < w \<longrightarrow>
      scaleLinear (d0, d1) (r0, r1) w < scaleLinear (d0, d1) (r0, r1) u) \<and>
   linear_at (bar_y (makeScales_bar fruits getPlotArea_bar)) = scaleLinear (0, 100) (360, 0)"
proof -
  have general: "scaleLinear (d0, d1) (r0, r1) w < scaleLinear (d0, d1) (r0, r1) u"
    if d: "d0 < d1" and r: "r1 < r0" and uw: "u < w"
  proof -
    have "(u - d0) / (d1 - d0) < (w - d0) / (d1 - d0)"
      using d uw by (simp add: divide_strict_right_mono)
    moreover have "r1 - r0 < 0"
      using r by simp
    ultimately have "(w - d0) / (d1 - d0) * (r1 - r0) < (u - d0) / (d1 - d0) * (r1 - r0)"
      by (rule mult_strict_right_mono_neg)
    then show ?thesis
      by (simp add: scaleLinear_def)
  qed
  have "linear_at (bar_y (makeScales_bar fruits getPlotArea_bar)) = scaleLinear (0, 100) (360, 0)"
    by (simp add: makeScales_bar_def linear_at_def getPlotArea_bar_def set_range_def fun_eq_iff)
  moreover have "u < w \<longrightarrow> scaleLinear (0, 100) (200, 0) w < scaleLinear (0, 100) (200, 0) u"
    by (simp add: scaleLinear_def)
  ultimately show ?thesis
    using general by (simp add: scaleLinear_def)
qed

theorem scaleLinear_inverted_range_witness:
  "scaleLinear (0, 100) (200, 0) 75 < scaleLinear (0, 100) (200, 0) 25 \<and>
   scaleLinear (0, 100) (360, 0) 62 = 136.8 \<and>
   scaleLinear (100000, 1000000) (1, 10) 550000 = 5.5 \<and>
   linear_at (bar_y (makeScales_bar getData_bar getPlotArea_bar)) 90 <
     linear_at (bar_y (makeScales_bar getData_bar getPlotArea_bar)) 43"
proof -
  have a: "(25::real) < 75" and b: "(0::real) < 100 \<and> (0::real) < 360 \<and> (43::real) < 90"
    and c: "(100000::real) \<noteq> 1000000" and d: "(0::real) \<noteq> 100"
    by simp_all
  from scaleLinear_inverted_range [of 0 100 360 0 62 25 75] a d
  have "scaleLinear (0, 100) (200, 0) 75 < scaleLinear (0, 100) (200, 0) 25"
    and "scaleLinear (0, 100) (360, 0) 62 = 136.8"
    by simp_all
  moreover from scaleLinear_inverted_range [of 100000 1000000 1 10 550000 0 0] c
  have "scaleLinear (100000, 1000000) (1, 10) 550000 = 5.5"
    by simp
  moreover from scaleLinear_inverted_range [of 0 100 360 0 0 43 90 getData_bar] b
  have "linear_at (bar_y (makeScales_bar getData_bar getPlotArea_bar)) 90 <
        linear_at (bar_y (makeScales_bar getData_bar getPlotArea_bar)) 43"
    by simp
  ultimately show ?thesis by simp
qed

section \<open>Properties of the plot area\<close>

text \<open>
  No drawing function assigns to the plot: each returns a state with the plot object
  it was given.
\<close>

lemma plot_emit [simp]: "plot_obj (emit instrs st) = plot_obj st"
  by (simp add: emit_def)

lemma plot_append_node [simp]: "plot_obj (snd (append_node parent tag st)) = plot_obj st"
  by (simp add: append_node_def)

lemma plot_enter_append [simp]: "plot_obj (snd (enter_append parent tag ds st)) = plot_obj st"
  by (induction ds arbitrary: st) (simp_all add: case_prod_beta)

lemma plot_setupSvgAndPaddingGroup [simp]:
  "plot_obj (snd (setupSvgAndPaddingGroup svg st)) = plot_obj st"
  by (simp add: setupSvgAndPaddingGroup_def Let_def case_prod_beta)

lemma plot_calcTextWidth [simp]:
  "plot_obj (snd (calcTextWidth m g s cl st)) = plot_obj st"
  by (simp add: calcTextWidth_def Let_def case_prod_beta)

lemma plot_bar_steps [simp]:
  "plot_obj (defineDashedLine svg st) = plot_obj st"
  "plot_obj (appendYAxisDashedLines pg bs st) = plot_obj st"
  "plot_obj (appendXAxis_bar pg bs st) = plot_obj st"
  "plot_obj (appendYAxis_bar pg bs st) = plot_obj st"
  "plot_obj (appendBars pg fs bs st) = plot_obj st"
  "plot_obj (appendScoreToday pg fs bs st) = plot_obj st"
  "plot_obj (appendScoreLastYear pg fs bs st) = plot_obj st"
  "plot_obj (appendChartTitle_bar svg st) = plot_obj st"
  "plot_obj (appendYAxisTitle svg st) = plot_obj st"
  "plot_obj (appendFootnote svg st) = plot_obj st"
  by (simp_all add: defineDashedLine_def appendYAxisDashedLines_def appendXAxis_bar_def
      appendYAxis_bar_def appendBars_def appendScoreToday_def appendScoreLastYear_def
      appendChartTitle_bar_def appendYAxisTitle_def appendFootnote_def Let_def case_prod_beta)

lemma plot_append_line [simp]: "plot_obj (append_line g x1 y1 x2 y2 st) = plot_obj st"
  by (simp add: append_line_def case_prod_beta)

lemma plot_append_line_each [simp]: "plot_obj (append_line_each gs x1 y1 x2 y2 st) = plot_obj st"
  by (induction gs arbitrary: st) simp_all

lemma plot_horizontal_lines:
  "horizontal_lines g ticks st = Inr st' \<Longrightarrow> plot_obj st' = plot_obj st"
  by (induction ticks arbitrary: st) (auto split: sum.splits)

lemma plot_vertical_lines:
  "vertical_lines gs i ticks st = Inr st' \<Longrightarrow> plot_obj st' = plot_obj st"
  by (induction ticks arbitrary: st i) (auto split: sum.splits if_splits)

lemma plot_rate_steps [simp]:
  "plot_obj (appendBackground pg st) = plot_obj st"
  "plot_obj (appendXAxis_rate pg rs st) = plot_obj st"
  "plot_obj (appendYAxis_rate pg rs st) = plot_obj st"
  "plot_obj (appendRecessionBars pg ds rs st) = plot_obj st"
  "plot_obj (appendBackgroundBorderLines pg st) = plot_obj st"
  "plot_obj (appendRateWaveform pg ds rs st) = plot_obj st"
  "plot_obj (appendLegendOneRow_rate lg area row cl txt st) = plot_obj st"
  by (simp_all add: appendBackground_def appendXAxis_rate_def appendYAxis_rate_def
      appendRecessionBars_def appendBackgroundBorderLines_def appendRateWaveform_def
      appendLegendOneRow_rate_def Let_def case_prod_beta)

lemma plot_appendLegend_rate [simp]: "plot_obj (appendLegend_rate c pg st) = plot_obj st"
  by (simp add: appendLegend_rate_def Let_def case_prod_beta)

lemma plot_horizontal_grid:
  "appendBackgroundHorizontalGridLines c pg st = Inr st' \<Longrightarrow> plot_obj st' = plot_obj st"
  by (auto simp: appendBackgroundHorizontalGridLines_def Let_def case_prod_beta
      dest!: plot_horizontal_lines)

lemma plot_vertical_grid:
  "appendBackgroundVerticalGridLines c pg st = Inr st' \<Longrightarrow> plot_obj st' = plot_obj st"
  by (auto simp: appendBackgroundVerticalGridLines_def Let_def dest!: plot_vertical_lines)

lemma plot_appendMap: "appendMap asset pg st = Inr st' \<Longrightarrow> plot_obj st' = plot_obj st"
  by (auto simp: appendMap_def Let_def split: if_splits)

lemma plot_append_paths [simp]: "plot_obj (append_paths g ps st) = plot_obj st"
  by (induction ps arbitrary: st) (simp_all add: case_prod_beta)

lemma plot_each_from:
  "(\<And>d i st. plot_obj (f d i st) = plot_obj st) \<Longrightarrow> plot_obj (each_from k f ds st) = plot_obj st"
  by (induction ds arbitrary: k st) simp_all

lemma plot_map_steps [simp]:
  "plot_obj (appendRouteArcs_render pg as ms st) = plot_obj st"
  "plot_obj (appendOneAirportCircle c pg a ms st) = plot_obj st"
  "plot_obj (appendChartTitle_map svg st) = plot_obj st"
  "plot_obj (appendLegendOneRow_map lg area row shape cl txt st) = plot_obj st"
  by (simp_all add: appendRouteArcs_render_def appendOneAirportCircle_def
      appendChartTitle_map_def appendLegendOneRow_map_def Let_def case_prod_beta)

lemma plot_appendAirportCircles [simp]: "plot_obj (appendAirportCircles c pg as ms st) = plot_obj st"
  by (simp add: appendAirportCircles_def each_def plot_each_from)

lemma plot_appendLegend_map [simp]: "plot_obj (appendLegend_map svg st) = plot_obj st"
  by (simp add: appendLegend_map_def Let_def case_prod_beta)

lemma keeps_plot_Inr: "(\<And>st. plot_obj (f st) = plot_obj st) \<Longrightarrow> keeps_plot (\<lambda>st. Inr (f st))"
  by (auto simp: keeps_plot_def)

lemma keeps_plot_Inl: "keeps_plot (\<lambda>st. Inl e)"
  by (simp add: keeps_plot_def)

lemma trace_steps_plot:
  "\<forall>step \<in> set steps. keeps_plot step \<Longrightarrow> st' \<in> set (trace_steps steps st) \<Longrightarrow>
   plot_obj st' = plot_obj st"
proof (induction steps arbitrary: st)
  case Nil
  then show ?case by simp
next
  case (Cons step steps)
  show ?case
  proof (cases "step st")
    case (Inl e)
    with Cons.prems show ?thesis by simp
  next
    case (Inr st1)
    with Cons.prems have 1: "plot_obj st1 = plot_obj st"
      by (simp add: keeps_plot_def)
    from Cons.prems Inr have "st' = st \<or> st' \<in> set (trace_steps steps st1)"
      by simp
    then show ?thesis
      using Cons.IH [of st1] Cons.prems(1) 1 by auto
  qed
qed

lemma run_steps_last:
  "run_steps steps st = Inr st' \<Longrightarrow> st' = last (trace_steps steps st)"
proof (induction steps arbitrary: st)
  case Nil
  then show ?case by simp
next
  case (Cons step steps)
  then show ?case
    by (cases "step st") (auto split: sum.splits, (cases steps; simp split: sum.splits)+)
qed

lemma trace_steps_nonempty: "trace_steps steps st \<noteq> []"
  by (cases steps) simp_all

lemma run_steps_in_trace: "run_steps steps st = Inr st' \<Longrightarrow> st' \<in> set (trace_steps steps st)"
  using run_steps_last [of steps st st'] trace_steps_nonempty [of steps st] last_in_set by metis

lemma final_in_trace:
  "(case prepared of (steps, before, s) \<Rightarrow> run_steps steps s) = Inr st \<Longrightarrow>
   st \<in> set (case prepared of (steps, before, s) \<Rightarrow> before @ trace_steps steps s)"
  by (cases prepared) (auto dest: run_steps_in_trace)

lemma draw_bar_steps_keep: "\<forall>step \<in> set (draw_bar_steps svg pg ds bs). keeps_plot step"
  by (simp add: draw_bar_steps_def keeps_plot_Inr)

lemma draw_rate_steps_keep: "\<forall>step \<in> set (draw_rate_steps c pg ds rs). keeps_plot step"
  by (auto simp: draw_rate_steps_def keeps_plot_Inr)
     (auto simp: keeps_plot_def dest: plot_horizontal_grid plot_vertical_grid)

lemma draw_map_steps_keep: "\<forall>step \<in> set (draw_map_steps c svg pg ds ms). keeps_plot step"
  by (simp add: draw_map_steps_def keeps_plot_Inr)

lemma draw_bar_trace_plot: "st \<in> set draw_bar_trace \<Longrightarrow> plot_obj st = getPlotArea_bar"
  by (auto simp: draw_bar_trace_def draw_bar_setup_def Let_def case_prod_beta start_render_def
      dest!: trace_steps_plot [OF draw_bar_steps_keep])

lemma draw_rate_trace_plot: "st \<in> set (draw_rate_trace c data) \<Longrightarrow> plot_obj st = getPlotArea_rate"
  by (auto simp: draw_rate_trace_def draw_rate_setup_def Let_def case_prod_beta start_render_def
      split: sum.splits
      dest!: trace_steps_plot [OF draw_rate_steps_keep])

lemma draw_map_trace_plot:
  "st \<in> set (draw_map_trace c asset data) \<Longrightarrow> plot_obj st = getPlotArea_map"
  by (auto simp: draw_map_trace_def draw_map_setup_def Let_def case_prod_beta start_render_def
      split: sum.splits
      dest!: trace_steps_plot [OF draw_map_steps_keep] plot_appendMap)

lemma run_steps_succeeds:
  "\<forall>step \<in> set steps. succeeds step \<Longrightarrow> \<exists>st'. run_steps steps st = Inr st'"
proof (induction steps arbitrary: st)
  case Nil
  then show ?case by simp
next
  case (Cons step steps)
  from Cons.prems have "succeeds step" by simp
  then obtain st1 where "step st = Inr st1"
    unfolding succeeds_def by blast
  with Cons show ?case by simp
qed

lemma trace_steps_length:
  "\<forall>step \<in> set steps. succeeds step \<Longrightarrow> length (trace_steps steps st) = Suc (length steps)"
proof (induction steps arbitrary: st)
  case Nil
  then show ?case by simp
next
  case (Cons step steps)
  from Cons.prems have "succeeds step" by simp
  then obtain st1 where "step st = Inr st1"
    unfolding succeeds_def by blast
  with Cons show ?case by simp
qed

lemma succeeds_Inr: "succeeds (\<lambda>st. Inr (f st))"
  by (simp add: succeeds_def)

lemma horizontal_lines_succeeds:
  "\<forall>tick \<in> set ticks. \<exists>t. extractTranslation ToNumber tick = Inr t \<Longrightarrow>
   \<exists>st'. horizontal_lines g ticks st = Inr st'"
  by (induction ticks arbitrary: st) auto

lemma vertical_lines_succeeds:
  "\<forall>tick \<in> set ticks. \<exists>t. extractTranslation ToNumber tick = Inr t \<Longrightarrow>
   \<exists>st'. vertical_lines gs i ticks st = Inr st'"
  by (induction ticks arbitrary: st i) auto

lemma example_ticks_parse:
  "extractTranslation ToNumber [''transform'' \<mapsto> ''translate(0,370.5)''] =
     Inr \<lparr>trans_x = ToNumber ''0'', trans_y = ToNumber ''370.5''\<rparr>"
  "extractTranslation ToNumber [''transform'' \<mapsto> ''translate(0,185.5)''] =
     Inr \<lparr>trans_x = ToNumber ''0'', trans_y = ToNumber ''185.5''\<rparr>"
  "extractTranslation ToNumber [''transform'' \<mapsto> ''translate(0.5,0)''] =
     Inr \<lparr>trans_x = ToNumber ''0.5'', trans_y = ToNumber ''0''\<rparr>"
  "extractTranslation ToNumber [''transform'' \<mapsto> ''translate(345.5,0)''] =
     Inr \<lparr>trans_x = ToNumber ''345.5'', trans_y = ToNumber ''0''\<rparr>"
  by code_simp+

lemma example_rate_steps_succeed:
  "\<forall>step \<in> set (draw_rate_steps example_collaborators pg ds rs). succeeds step"
proof -
  have y: "\<forall>tick \<in> set (axis_ticks example_collaborators ''yAxis'').
      \<exists>t. extractTranslation ToNumber tick = Inr t"
    by (simp add: example_collaborators_def example_ticks_parse)
  have x: "\<forall>tick \<in> set (axis_ticks example_collaborators ''xAxis'').
      \<exists>t. extractTranslation ToNumber tick = Inr t"
    by (simp add: example_collaborators_def example_ticks_parse)
  have "succeeds (appendBackgroundHorizontalGridLines example_collaborators pg)"
    unfolding succeeds_def appendBackgroundHorizontalGridLines_def Let_def case_prod_beta
    using horizontal_lines_succeeds [OF y] by blast
  moreover have "succeeds (appendBackgroundVerticalGridLines example_collaborators pg)"
    unfolding succeeds_def appendBackgroundVerticalGridLines_def Let_def
    using vertical_lines_succeeds [OF x] by blast
  ultimately show ?thesis
    by (simp add: draw_rate_steps_def succeeds_Inr)
qed

lemma example_rate_scales: "\<exists>rs. makeScales_rate c example_rates plot = Inr rs"
  by (simp add: makeScales_rate_def example_rates_def Let_def)

lemma draw_rate_example: "\<exists>st. draw_rate example_collaborators example_rates = Inr st"
proof -
  obtain rs where "makeScales_rate example_collaborators example_rates
      (plot_obj (snd (setupSvgAndPaddingGroup (fst (append_node 0 ''svg'' (start_render getPlotArea_rate)))
          (snd (append_node 0 ''svg'' (start_render getPlotArea_rate)))))) = Inr rs"
    using example_rate_scales by blast
  then show ?thesis
    by (simp add: draw_rate_def draw_rate_setup_def Let_def case_prod_beta
        run_steps_succeeds [OF example_rate_steps_succeed])
qed

lemma draw_map_example:
  "\<exists>st. draw_map example_collaborators example_asset [atlanta, los_angeles] = Inr st"
  by (simp add: draw_map_def draw_map_setup_def Let_def case_prod_beta appendMap_def
      example_asset_def draw_map_steps_def)

lemma draw_bar_length: "length draw_bar_trace = 13"
  by (simp add: draw_bar_trace_def draw_bar_setup_def Let_def case_prod_beta
      trace_steps_length draw_bar_steps_def succeeds_Inr)

lemma set_range_invariant:
  "range_x (set_range plot) = svg_width (set_range plot) - padding_left (set_range plot)
     - padding_right (set_range plot) \<and>
   range_y (set_range plot) = svg_height (set_range plot) - padding_top (set_range plot)
     - padding_bottom (set_range plot)"
  by (simp add: set_range_def)

text \<open>
  C8. For each of the three charts, the plot that \<^verbatim>\<open>getPlotArea\<close> returns has
  \<open>range.x = svg.width - padding.left - padding.right\<close> and
  \<open>range.y = svg.height - padding.top - padding.bottom\<close>, and the plot object is
  never changed during the render: in every state that \<^verbatim>\<open>draw\<close> passes
  through, before its first step and after each step, and in the state it ends in, the
  plot object is the one that \<^verbatim>\<open>getPlotArea\<close> returned.
\<close>

theorem plot_area_invariant_and_frame:
  "(\<forall>plot \<in> {getPlotArea_map, getPlotArea_rate, getPlotArea_bar}.
      range_x plot = svg_width plot - padding_left plot - padding_right plot \<and>
      range_y plot = svg_height plot - padding_top plot - padding_bottom plot) \<and>
   (\<forall>st \<in> set draw_bar_trace. plot_obj st = getPlotArea_bar) \<and>
   (\<forall>st \<in> set (draw_rate_trace c rates). plot_obj st = getPlotArea_rate) \<and>
   (\<forall>st \<in> set (draw_map_trace c asset airports). plot_obj st = getPlotArea_map) \<and>
   (\<forall>st. draw_bar = Inr st \<longrightarrow> plot_obj st = getPlotArea_bar) \<and>
   (\<forall>st. draw_rate c rates = Inr st \<longrightarrow> plot_obj st = getPlotArea_rate) \<and>
   (\<forall>st. draw_map c asset airports = Inr st \<longrightarrow> plot_obj st = getPlotArea_map)"
proof -
  have inv: "\<forall>plot \<in> {getPlotArea_map, getPlotArea_rate, getPlotArea_bar}.
      range_x plot = svg_width plot - padding_left plot - padding_right plot \<and>
      range_y plot = svg_height plot - padding_top plot - padding_bottom plot"
    using set_range_invariant
    by (simp add: getPlotArea_map_def getPlotArea_rate_def getPlotArea_bar_def)
  have bar: "plot_obj st = getPlotArea_bar" if "draw_bar = Inr st" for st
  proof -
    from that have "st \<in> set draw_bar_trace"
      unfolding draw_bar_def draw_bar_trace_def by (rule final_in_trace)
    then show ?thesis by (rule draw_bar_trace_plot)
  qed
  have rate: "plot_obj st = getPlotArea_rate" if "draw_rate c rates = Inr st" for st
  proof -
    from that have "st \<in> set (draw_rate_trace c rates)"
      unfolding draw_rate_def draw_rate_trace_def by (rule final_in_trace)
    then show ?thesis by (rule draw_rate_trace_plot)
  qed
  have map: "plot_obj st = getPlotArea_map" if "draw_map c asset airports = Inr st" for st
  proof -
    from that have "st \<in> set (draw_map_trace c asset airports)"
      unfolding draw_map_def draw_map_trace_def by (rule final_in_trace)
    then show ?thesis by (rule draw_map_trace_plot)
  qed
  from inv bar rate map show ?thesis
    using draw_bar_trace_plot draw_rate_trace_plot draw_map_trace_plot by blast
qed

theorem plot_area_invariant_and_frame_witness:
  "range_x getPlotArea_map = 790 \<and> range_y getPlotArea_map = 435 \<and>
   range_x getPlotArea_rate = 690 \<and> range_y getPlotArea_rate = 370 \<and>
   range_x getPlotArea_bar = 700 \<and> range_y getPlotArea_bar = 360 \<and>
   length draw_bar_trace = 13 \<and>
   plot_obj (last draw_bar_trace) = getPlotArea_bar \<and>
   (\<exists>st. draw_rate example_collaborators example_rates = Inr st \<and>
         plot_obj st = getPlotArea_rate) \<and>
   (\<exists>st. draw_map example_collaborators example_asset [atlanta, los_angeles] = Inr st \<and>
         plot_obj st = getPlotArea_map)"
proof -
  note frame = plot_area_invariant_and_frame
    [of example_collaborators example_rates example_asset "[atlanta, los_angeles]"]
  have "draw_bar_trace \<noteq> []"
    using draw_bar_length by auto
  then have "last draw_bar_trace \<in> set draw_bar_trace"
    by (rule last_in_set)
  with frame have "plot_obj (last draw_bar_trace) = getPlotArea_bar"
    by blast
  moreover from frame draw_rate_example
  have "\<exists>st. draw_rate example_collaborators example_rates = Inr st \<and>
         plot_obj st = getPlotArea_rate"
    by blast
  moreover from frame draw_map_example
  have "\<exists>st. draw_map example_collaborators example_asset [atlanta, los_angeles] = Inr st \<and>
         plot_obj st = getPlotArea_map"
    by blast
  moreover have "range_x getPlotArea_map = 790 \<and> range_y getPlotArea_map = 435 \<and>
   range_x getPlotArea_rate = 690 \<and> range_y getPlotArea_rate = 370 \<and>
   range_x getPlotArea_bar = 700 \<and> range_y getPlotArea_bar = 360"
    by (simp add: getPlotArea_map_def getPlotArea_rate_def getPlotArea_bar_def set_range_def)
  ultimately show ?thesis
    using draw_bar_length by simp
qed

end
